theory Spec2Isabelle
  imports Main "HOL-Library.Sublist" "HOL-Library.Multiset"
begin

section \<open>Strings of the runtime\<close>

text \<open>
  The service is TypeScript; its strings are sequences of UTF-16 code units and every
  string operation used below (\<^verbatim>\<open>includes\<close>, \<^verbatim>\<open>split\<close>, \<^verbatim>\<open>slice\<close>, \<^verbatim>\<open>length\<close>, \<^verbatim>\<open>trim\<close>,
  the regular expressions without the \<^verbatim>\<open>u\<close> flag) works on code units. A \<^typ>\<open>char\<close> of the
  model is one code unit below U+0100, so the model covers the texts written in ISO-8859-1;
  on that range the functions below are the ones of ECMAScript.
\<close>

definition unit_of :: "char \<Rightarrow> nat" where
  "unit_of c = of_char c"

text \<open>\<^verbatim>\<open>String.prototype.toLowerCase\<close>: A-Z and the capital letters U+00C0..U+00DE
  (U+00D7, the multiplication sign, is no letter) move up by 32.\<close>

definition toLowerCase_char :: "char \<Rightarrow> char" where
  "toLowerCase_char c =
     (let n = unit_of c in
      if (65 \<le> n \<and> n \<le> 90) \<or> (192 \<le> n \<and> n \<le> 222 \<and> n \<noteq> 215)
      then char_of (n + 32) else c)"

definition toLowerCase :: "string \<Rightarrow> string" where
  "toLowerCase s = map toLowerCase_char s"

text \<open>The class \<^verbatim>\<open>\s\<close> and the characters \<^verbatim>\<open>trim\<close> removes: TAB, LF, VT, FF, CR, SP and
  NBSP (U+0085 is not white space in ECMAScript).\<close>

definition is_space :: "char \<Rightarrow> bool" where
  "is_space c = (let n = unit_of c in (9 \<le> n \<and> n \<le> 13) \<or> n = 32 \<or> n = 160)"

text \<open>The class \<^verbatim>\<open>\d\<close>.\<close>

definition is_digit :: "char \<Rightarrow> bool" where
  "is_digit c = (let n = unit_of c in 48 \<le> n \<and> n \<le> 57)"

text \<open>\<^verbatim>\<open>s.includes(t)\<close>: \<open>t\<close> occurs in \<open>s\<close> as a contiguous block; the empty string occurs
  everywhere, also in the empty string.\<close>

fun includes_str :: "string \<Rightarrow> string \<Rightarrow> bool" where
  "includes_str [] t = (t = [])"
| "includes_str (c # cs) t = (prefix t (c # cs) \<or> includes_str cs t)"

text \<open>\<^verbatim>\<open>s.startsWith(p)\<close>.\<close>

definition startsWith :: "string \<Rightarrow> string \<Rightarrow> bool" where
  "startsWith s p = prefix p s"

text \<open>\<^verbatim>\<open>s.split(sep)\<close> for a string separator. With a non-empty separator the text is cut
  at each occurrence found scanning from the left, the search resuming behind the
  occurrence; \<open>cur\<close> holds the piece being read, reversed. With the empty separator the
  pieces are the code units.\<close>

function split_from :: "string \<Rightarrow> string \<Rightarrow> string \<Rightarrow> string list" where
  "split_from sep cur s =
     (if sep \<noteq> [] \<and> prefix sep s then rev cur # split_from sep [] (drop (length sep) s)
      else (case s of [] \<Rightarrow> [rev cur] | c # cs \<Rightarrow> split_from sep (c # cur) cs))"
  by pat_completeness auto
termination
  by (relation "measure (\<lambda>(sep, cur, s). length s)") (auto simp: prefix_def)

declare split_from.simps [simp del]

definition split_string :: "string \<Rightarrow> string \<Rightarrow> string list" where
  "split_string s sep = (if sep = [] then map (\<lambda>c. [c]) s else split_from sep [] s)"

text \<open>\<^verbatim>\<open>s.split(/\s+/)\<close>: the text is cut at each maximal run of white space; a run at the
  start or at the end leaves an empty piece there, and the empty text gives one empty
  piece.\<close>

function split_ws_from :: "string \<Rightarrow> string \<Rightarrow> string list" where
  "split_ws_from cur [] = [rev cur]"
| "split_ws_from cur (c # cs) =
     (if is_space c then rev cur # split_ws_from [] (dropWhile is_space cs)
      else split_ws_from (c # cur) cs)"
  by pat_completeness auto
termination
  by (relation "measure (\<lambda>(cur, s). length s)")
     (auto simp: length_dropWhile_le less_Suc_eq_le)

definition split_whitespace :: "string \<Rightarrow> string list" where
  "split_whitespace s = split_ws_from [] s"

text \<open>\<^verbatim>\<open>s.trim()\<close>.\<close>

definition trim :: "string \<Rightarrow> string" where
  "trim s = rev (dropWhile is_space (rev (dropWhile is_space s)))"

text \<open>\<^verbatim>\<open>xs.slice(0, n)\<close>: a negative \<open>n\<close> counts from the end.\<close>

definition slice0 :: "'a list \<Rightarrow> int \<Rightarrow> 'a list" where
  "slice0 xs n = (if 0 \<le> n then take (nat n) xs else take (length xs - nat (- n)) xs)"

section \<open>Relevance Scorer\<close>

definition brandKeywords :: "string list" where
  "brandKeywords =
     [''logo'', ''color'', ''typography'', ''font'', ''voice'', ''tone'',
      ''message'', ''audience'', ''value'', ''positioning'', ''visual'',
      ''identity'', ''brand'', ''sodax'']"

text \<open>The body of the first loop of \<^verbatim>\<open>calculateRelevance\<close>, for one query term.\<close>

definition score_term :: "string \<Rightarrow> string \<Rightarrow> int \<Rightarrow> int" where
  "score_term contentLower term score =
     (if includes_str contentLower term
      then (let score1 = score + 10;
                matches = int (length (split_string contentLower term)) - 1
            in score1 + min matches 5)
      else score)"

text \<open>The body of the second loop, for one brand keyword.\<close>

definition score_keyword :: "string \<Rightarrow> string list \<Rightarrow> string \<Rightarrow> int \<Rightarrow> int" where
  "score_keyword contentLower queryTerms keyword score =
     (if list_ex (\<lambda>t. includes_str t keyword \<or> includes_str keyword t) queryTerms
      then (if includes_str contentLower keyword then score + 5 else score)
      else score)"

definition direct_score :: "string \<Rightarrow> string list \<Rightarrow> int" where
  "direct_score contentLower queryTerms = fold (score_term contentLower) queryTerms 0"

definition calculateRelevance :: "string \<Rightarrow> string list \<Rightarrow> int" where
  "calculateRelevance content queryTerms =
     (let contentLower = toLowerCase content;
          score = direct_score contentLower queryTerms
      in fold (score_keyword contentLower queryTerms) brandKeywords score)"

text \<open>What the second loop adds.\<close>

definition keyword_score :: "string \<Rightarrow> string list \<Rightarrow> int" where
  "keyword_score contentLower queryTerms =
     fold (score_keyword contentLower queryTerms) brandKeywords 0"

text \<open>The number of occurrences of a non-empty \<open>t\<close> in \<open>s\<close> that do not overlap, read from
  the left: what \<^verbatim>\<open>s.split(t).length - 1\<close> counts.\<close>

function occurrences :: "string \<Rightarrow> string \<Rightarrow> nat" where
  "occurrences s t =
     (if t = [] then 0
      else if prefix t s then Suc (occurrences (drop (length t) s) t)
      else (case s of [] \<Rightarrow> 0 | c # cs \<Rightarrow> occurrences cs t))"
  by pat_completeness auto
termination
  by (relation "measure (\<lambda>(s, t). length s)") (auto simp: prefix_def)

declare occurrences.simps [simp del]

text \<open>What one query term adds in the first loop.\<close>

definition term_contribution :: "string \<Rightarrow> string \<Rightarrow> int" where
  "term_contribution contentLower term = score_term contentLower term 0"

text \<open>The contribution as the specification words it: ten, and one more for each
  occurrence after the first, at most five more.\<close>

definition claimed_term_contribution :: "string \<Rightarrow> string \<Rightarrow> int" where
  "claimed_term_contribution contentLower term =
     (if includes_str contentLower term
      then 10 + min (int (occurrences contentLower term) - 1) 5
      else 0)"

section \<open>Data model\<close>

record BrandSubsection =
  id_sub :: string
  title_sub :: string
  content_sub :: string

record BrandSection =
  id_sec :: string
  title_sec :: string
  content_sec :: string
  subsections :: "BrandSubsection list"

text \<open>\<open>fetchedAt\<close> is a \<^verbatim>\<open>Date\<close>: the milliseconds since the epoch.\<close>

record BrandBibleData =
  version :: string
  lastUpdated :: string
  sections :: "BrandSection list"
  rawContent :: string
  fetchedAt :: int

record SearchResult =
  sectionId :: string
  sectionTitle :: string
  subsectionId :: "string option"
  subsectionTitle :: "string option"
  content_res :: string
  relevance :: int

section \<open>Taxonomy Table\<close>

text \<open>The two tables are objects read with \<^verbatim>\<open>Object.entries\<close>, which lists integer keys in
  ascending order and then the other keys in insertion order. The section keys are
  written in ascending order and no subsection key is an integer, so both tables are
  read in the order they are written.\<close>

definition CACHE_TTL_MS :: int where
  "CACHE_TTL_MS = 5 * 60 * 1000"

definition CHARACTER_LIMIT :: nat where
  "CHARACTER_LIMIT = 25000"

definition BRAND_BIBLE_URL :: string where
  "BRAND_BIBLE_URL = ''https://iconfoundation.notion.site/brand-bible-v1''"

definition SECTION_NAMES :: "(string \<times> string) list" where
  "SECTION_NAMES =
     [(''1'', ''Brand Essence and Foundations''),
      (''2'', ''Positioning and Messaging Architecture''),
      (''3'', ''Verbal Identity''),
      (''4'', ''Visual Identity''),
      (''5'', ''Brand Expression Across Channels''),
      (''6'', ''Brand Use in Partnerships and Integrations'')]"

definition SUBSECTION_NAMES :: "(string \<times> string) list" where
  "SUBSECTION_NAMES =
     [(''1.1'', ''Brand Overview''),
      (''1.2'', ''Brand Purpose''),
      (''1.3'', ''Brand Promise''),
      (''1.4'', ''Brand Values''),
      (''1.5'', ''Brand Personality''),
      (''1.6'', ''Core Brand Idea''),
      (''2.1'', ''Market Context''),
      (''2.2'', ''Category Definition''),
      (''2.3'', ''Problem Statement''),
      (''2.4'', ''SODAX Positioning Statement''),
      (''2.5'', ''Audience Segmentation''),
      (''2.6'', ''Messaging Pillars''),
      (''2.7'', ''Value Propositions by Audience''),
      (''2.8'', ''Competitive Differentiation''),
      (''2.9'', ''Proof Points''),
      (''2.10'', ''Positioning Guardrails''),
      (''3.1'', ''Tone of Voice''),
      (''3.2'', ''Writing Principles''),
      (''3.3'', ''How We Talk to B2B Builders''),
      (''3.4'', ''How We Talk to B2C Users''),
      (''3.5'', ''Messaging Do's and Don'ts''),
      (''3.6'', ''Example Message Patterns''),
      (''4.1'', ''Logo Usage''),
      (''4.2'', ''Selected Color Palette''),
      (''4.3'', ''Typography''),
      (''4.4'', ''Iconography''),
      (''4.5'', ''Layout and Composition''),
      (''4.6'', ''Motion and Animation''),
      (''4.7'', ''Accessibility Standards''),
      (''5.1'', ''Shared Principles (All Channels)''),
      (''5.2'', ''X''),
      (''5.3'', ''Reddit''),
      (''5.4'', ''YouTube''),
      (''5.5'', ''Consistency Rule''),
      (''6.1'', ''Core Principle''),
      (''6.2'', ''Partner Announcements''),
      (''6.3'', ''Visual Presence in Partner Contexts''),
      (''6.4'', ''Case Studies (External)''),
      (''6.5'', ''Developer-facing Contexts'')]"

section \<open>Segmenter\<close>

subsection \<open>The two patterns\<close>

text \<open>
  Both patterns are built with the flag \<^verbatim>\<open>i\<close> and used with \<^verbatim>\<open>content.match\<close>: the match
  at the leftmost position where the pattern matches, and there the first one in the
  order of backtracking. The pattern of a section is
  \<^verbatim>\<open>NUM\.\s*NAME([\s\S]*?)(?=\d+\.\s+[A-Z]|$)\<close>, the one of a subsection
  \<^verbatim>\<open>ID\s*NAME([\s\S]*?)(?=\d+\.\d+|\d+\.|$)\<close>, where \<^verbatim>\<open>NAME\<close> is the title with every
  character that is special in a pattern escaped (so it stands for itself) and
  \<^verbatim>\<open>NUM\<close>, \<^verbatim>\<open>ID\<close> are the identifiers as they are.
\<close>

text \<open>The flag \<^verbatim>\<open>i\<close> compares the upper-case forms of code units.\<close>

definition canonicalize :: "char \<Rightarrow> char" where
  "canonicalize c =
     (let n = unit_of c in
      if (97 \<le> n \<and> n \<le> 122) \<or> (224 \<le> n \<and> n \<le> 254 \<and> n \<noteq> 247)
      then char_of (n - 32) else c)"

definition eq_ci :: "char \<Rightarrow> char \<Rightarrow> bool" where
  "eq_ci p c = (canonicalize p = canonicalize c)"

text \<open>An identifier goes into the pattern unescaped. The identifiers of the taxonomy are
  made of digits and dots: a digit stands for itself, a dot is the wildcard, which is any
  code unit but a line terminator.\<close>

definition id_atom :: "char \<Rightarrow> char \<Rightarrow> bool" where
  "id_atom p c =
     (if p = CHR ''.'' then unit_of c \<noteq> 10 \<and> unit_of c \<noteq> 13 else eq_ci p c)"

text \<open>\<^verbatim>\<open>[A-Z]\<close> under the flag \<^verbatim>\<open>i\<close>.\<close>

definition is_letter_ci :: "char \<Rightarrow> bool" where
  "is_letter_ci c = (let n = unit_of (canonicalize c) in 65 \<le> n \<and> n \<le> 90)"

text \<open>A run of one-character atoms at the start of the text: what is left behind it.\<close>

fun match_atoms :: "(char \<Rightarrow> char \<Rightarrow> bool) \<Rightarrow> string \<Rightarrow> string \<Rightarrow> string option" where
  "match_atoms a [] s = Some s"
| "match_atoms a (p # ps) [] = None"
| "match_atoms a (p # ps) (c # cs) = (if a p c then match_atoms a ps cs else None)"

text \<open>\<^verbatim>\<open>\s*\<close> before the rest \<open>k\<close> of a pattern: the longest run of white space first, a
  shorter one when the rest fails behind the longer.\<close>

fun ws_star_then :: "(string \<Rightarrow> 'a option) \<Rightarrow> string \<Rightarrow> 'a option" where
  "ws_star_then k [] = k []"
| "ws_star_then k (c # cs) =
     (if is_space c
      then (case ws_star_then k cs of Some r \<Rightarrow> Some r | None \<Rightarrow> k (c # cs))
      else k (c # cs))"

text \<open>\<^verbatim>\<open>([\s\S]*?)\<close> before a lookahead: the shortest text behind which the lookahead
  holds.\<close>

fun lazy_until :: "(string \<Rightarrow> bool) \<Rightarrow> string \<Rightarrow> string option" where
  "lazy_until P [] = (if P [] then Some [] else None)"
| "lazy_until P (c # cs) =
     (if P (c # cs) then Some [] else map_option ((#) c) (lazy_until P cs))"

text \<open>\<^verbatim>\<open>(?=\d+\.\s+[A-Z]|$)\<close>. No digit is a dot and no white space is a letter, so the
  greedy runs never give a character back.\<close>

definition section_lookahead :: "string \<Rightarrow> bool" where
  "section_lookahead s =
     ((takeWhile is_digit s \<noteq> [] \<and>
       (case dropWhile is_digit s of
          [] \<Rightarrow> False
        | d # r \<Rightarrow> d = CHR ''.'' \<and> takeWhile is_space r \<noteq> [] \<and>
            (case dropWhile is_space r of [] \<Rightarrow> False | l # _ \<Rightarrow> is_letter_ci l)))
      \<or> s = [])"

text \<open>\<^verbatim>\<open>(?=\d+\.\d+|\d+\.|$)\<close>.\<close>

definition subsection_lookahead :: "string \<Rightarrow> bool" where
  "subsection_lookahead s =
     ((takeWhile is_digit s \<noteq> [] \<and>
       (case dropWhile is_digit s of
          [] \<Rightarrow> False
        | d # r \<Rightarrow> d = CHR ''.'' \<and> (case r of [] \<Rightarrow> False | e # _ \<Rightarrow> is_digit e)))
      \<or> (takeWhile is_digit s \<noteq> [] \<and>
          (case dropWhile is_digit s of [] \<Rightarrow> False | d # _ \<Rightarrow> d = CHR ''.''))
      \<or> s = [])"

text \<open>The pattern of a section tried at the start of \<open>s\<close>: the captured text.\<close>

definition section_match_here :: "string \<Rightarrow> string \<Rightarrow> string \<Rightarrow> string option" where
  "section_match_here sectionNum sectionName s =
     (case match_atoms id_atom sectionNum s of
        None \<Rightarrow> None
      | Some s1 \<Rightarrow>
          (case s1 of
             [] \<Rightarrow> None
           | d # s2 \<Rightarrow>
               if d = CHR ''.''
               then ws_star_then
                      (\<lambda>s3. case match_atoms eq_ci sectionName s3 of
                               None \<Rightarrow> None
                             | Some s4 \<Rightarrow> lazy_until section_lookahead s4) s2
               else None))"

definition subsection_match_here :: "string \<Rightarrow> string \<Rightarrow> string \<Rightarrow> string option" where
  "subsection_match_here subId subName s =
     (case match_atoms id_atom subId s of
        None \<Rightarrow> None
      | Some s1 \<Rightarrow>
          ws_star_then
            (\<lambda>s2. case match_atoms eq_ci subName s2 of
                     None \<Rightarrow> None
                   | Some s3 \<Rightarrow> lazy_until subsection_lookahead s3) s1)"

text \<open>\<^verbatim>\<open>content.match(regex)\<close>: every position from the left, the end of the text
  included.\<close>

fun first_match :: "(string \<Rightarrow> 'a option) \<Rightarrow> string \<Rightarrow> 'a option" where
  "first_match m [] = m []"
| "first_match m (c # cs) =
     (case m (c # cs) of Some r \<Rightarrow> Some r | None \<Rightarrow> first_match m cs)"

subsection \<open>Extraction\<close>

definition descriptions :: "(string \<times> string) list" where
  "descriptions =
     [(''1'', ''Defines SODAX's core identity, purpose, promise, values, personality, and central brand idea.''),
      (''2'', ''Covers market positioning, audience segmentation, messaging pillars, value propositions, and competitive differentiation.''),
      (''3'', ''SODAX is serious infrastructure. Our voice should feel calm, competent, and human. We translate complex cross-network execution into language that is clear, credible, and easy to repeat.''),
      (''4'', ''SODAX's visual identity is adaptive, not rigid. It scales in intensity based on context, intent, and user mindset.''),
      (''5'', ''Defines how the SODAX brand should appear across public channels with consistency of meaning while allowing platform-native expression.''),
      (''6'', ''Defines how SODAX should be represented when it appears outside its own managed channels.'')]"

text \<open>\<^verbatim>\<open>descriptions[sectionNum] || "Brand guidelines content."\<close>: a missing entry and an
  empty one both give the default. (The keys an object inherits from its prototype are
  not section numbers and are not modelled.)\<close>

definition getDefaultSectionDescription :: "string \<Rightarrow> string" where
  "getDefaultSectionDescription sectionNum =
     (case map_of descriptions sectionNum of
        None \<Rightarrow> ''Brand guidelines content.''
      | Some d \<Rightarrow> if d \<noteq> [] then d else ''Brand guidelines content.'')"

definition extractSectionContent :: "string \<Rightarrow> string \<Rightarrow> string \<Rightarrow> string" where
  "extractSectionContent content sectionNum sectionName =
     (case first_match (section_match_here sectionNum sectionName) content of
        Some capture \<Rightarrow> slice0 (trim capture) 2000
      | None \<Rightarrow> getDefaultSectionDescription sectionNum)"

definition extractSubsectionContent :: "string \<Rightarrow> string \<Rightarrow> string \<Rightarrow> string" where
  "extractSubsectionContent content subId subName =
     (case first_match (subsection_match_here subId subName) content of
        Some capture \<Rightarrow> slice0 (trim capture) 1500
      | None \<Rightarrow>
          ''Content for '' @ subName @ ''. Please refer to the full Brand Bible for details.'')"

definition parseSubsections :: "string \<Rightarrow> string \<Rightarrow> BrandSubsection list" where
  "parseSubsections content sectionNum =
     map (\<lambda>(subId, subName).
            \<lparr>id_sub = subId, title_sub = subName,
             content_sub = extractSubsectionContent content subId subName\<rparr>)
         (filter (\<lambda>(subId, subName). startsWith subId (sectionNum @ ''.'')) SUBSECTION_NAMES)"

definition parseSections :: "string \<Rightarrow> BrandSection list" where
  "parseSections content =
     map (\<lambda>(sectionNum, sectionName).
            \<lparr>id_sec = sectionNum, title_sec = sectionName,
             content_sec = extractSectionContent content sectionNum sectionName,
             subsections = parseSubsections content sectionNum\<rparr>)
         SECTION_NAMES"

section \<open>Document Cache\<close>

text \<open>A thrown \<^verbatim>\<open>Error\<close> with its message.\<close>

datatype js_error = Error string

text \<open>What \<^verbatim>\<open>axios.get\<close> ends with: a response with its body, an error of the library (the
  status of the response when there is one, the error code when there is one, the
  message), or anything else thrown.\<close>

datatype axios_outcome =
    Response string
  | AxiosError "nat option" "string option" string
  | Thrown js_error

text \<open>What the markup library reads off a page for \<^verbatim>\<open>parseBrandBible\<close>: the version and the
  date that the two patterns over the text of the body give (\<^verbatim>\<open>"unknown"\<close> when they do
  not match), and the flattened text of \<^verbatim>\<open>extractTextContent\<close>. Parsing the markup and
  walking its tree is the library's work and is taken from the environment.\<close>

record markup_reading =
  version_read :: string
  lastUpdated_read :: string
  text_read :: string

text \<open>The environment of one call of \<^verbatim>\<open>getBrandBible\<close>: the clock on entry
  (\<^verbatim>\<open>Date.now()\<close>), the outcome of the request, the markup library (it may throw), and the
  clock when the snapshot is assembled (\<^verbatim>\<open>new Date()\<close>).\<close>

record world =
  date_now :: int
  axios_get :: axios_outcome
  cheerio_load :: "string \<Rightarrow> js_error + markup_reading"
  new_date :: int

text \<open>The two module variables.\<close>

record cache =
  cachedData :: "BrandBibleData option"
  cacheTimestamp :: int

definition initial_cache :: cache where
  "initial_cache = \<lparr>cachedData = None, cacheTimestamp = 0\<rparr>"

definition fetchBrandBibleHtml :: "axios_outcome \<Rightarrow> js_error + string" where
  "fetchBrandBibleHtml outcome =
     (case outcome of
        Response body \<Rightarrow> Inr body
      | AxiosError status code message \<Rightarrow>
          if status = Some 404
          then Inl (Error ''Brand Bible page not found. The URL may have changed.'')
          else if code = Some ''ECONNABORTED''
          then Inl (Error ''Request timed out while fetching Brand Bible. Please try again.'')
          else Inl (Error (''Failed to fetch Brand Bible: '' @ message))
      | Thrown e \<Rightarrow> Inl e)"

definition parseBrandBible :: "world \<Rightarrow> string \<Rightarrow> js_error + BrandBibleData" where
  "parseBrandBible w html =
     (case cheerio_load w html of
        Inl e \<Rightarrow> Inl e
      | Inr reading \<Rightarrow>
          (let rawContent = text_read reading;
               sections = parseSections rawContent
           in Inr \<lparr>version = version_read reading,
                    lastUpdated = lastUpdated_read reading,
                    sections = sections,
                    rawContent = rawContent,
                    fetchedAt = new_date w\<rparr>))"

definition getBrandBible :: "world \<Rightarrow> cache \<Rightarrow> (js_error + BrandBibleData) \<times> cache" where
  "getBrandBible w st =
     (let now = date_now w in
      if cachedData st \<noteq> None \<and> now - cacheTimestamp st < CACHE_TTL_MS
      then (Inr (the (cachedData st)), st)
      else (case fetchBrandBibleHtml (axios_get w) of
              Inl e \<Rightarrow> (Inl e, st)
            | Inr html \<Rightarrow>
                (case parseBrandBible w html of
                   Inl e \<Rightarrow> (Inl e, st)
                 | Inr data \<Rightarrow>
                     (Inr data, \<lparr>cachedData = Some data, cacheTimestamp = now\<rparr>))))"

text \<open>The test at the head of \<^verbatim>\<open>getBrandBible\<close>: there is a snapshot and the clock on entry
  is less than the time to live past the stored timestamp.\<close>

definition fresh :: "world \<Rightarrow> cache \<Rightarrow> bool" where
  "fresh w st = (cachedData st \<noteq> None \<and> date_now w - cacheTimestamp st < CACHE_TTL_MS)"

text \<open>
  \<^verbatim>\<open>getBrandBible\<close> is asynchronous: it runs to its one \<^verbatim>\<open>await\<close>, the request, and goes
  on behind it when the request has ended; other calls can run in between. Up to the
  \<^verbatim>\<open>await\<close> it reads the clock and tests the cache: it returns the snapshot of the cache,
  or it starts the request and keeps the clock reading. Behind the \<^verbatim>\<open>await\<close> it makes the
  snapshot and assigns it and the clock reading it kept to the two variables, whatever
  they hold by then; an error leaves them as they are by then. A call that nothing
  interleaves with is the one part followed by the other on the same cache, which is
  \<^verbatim>\<open>getBrandBible\<close> above.
\<close>

datatype entered = Hit BrandBibleData | Pending int

definition getBrandBible_enter :: "world \<Rightarrow> cache \<Rightarrow> entered" where
  "getBrandBible_enter w st =
     (let now = date_now w in
      if cachedData st \<noteq> None \<and> now - cacheTimestamp st < CACHE_TTL_MS
      then Hit (the (cachedData st))
      else Pending now)"

definition getBrandBible_resume ::
  "world \<Rightarrow> int \<Rightarrow> cache \<Rightarrow> (js_error + BrandBibleData) \<times> cache" where
  "getBrandBible_resume w now st =
     (case fetchBrandBibleHtml (axios_get w) of
        Inl e \<Rightarrow> (Inl e, st)
      | Inr html \<Rightarrow>
          (case parseBrandBible w html of
             Inl e \<Rightarrow> (Inl e, st)
           | Inr data \<Rightarrow> (Inr data, \<lparr>cachedData = Some data, cacheTimestamp = now\<rparr>)))"

definition clearCache :: "cache \<Rightarrow> cache" where
  "clearCache st = \<lparr>cachedData = None, cacheTimestamp = 0\<rparr>"

text \<open>Every snapshot the cache ever holds was assembled by \<^verbatim>\<open>parseBrandBible\<close>: its
  sections are the segmentation of its own flattened text.\<close>

definition assembled :: "BrandBibleData \<Rightarrow> bool" where
  "assembled data = (sections data = parseSections (rawContent data))"

definition cache_assembled :: "cache \<Rightarrow> bool" where
  "cache_assembled st = (case cachedData st of None \<Rightarrow> True | Some data \<Rightarrow> assembled data)"

text \<open>The states of the cache that a run of the module can reach: the module starts with
  the empty cache, and only \<^verbatim>\<open>getBrandBible\<close> and \<^verbatim>\<open>clearCache\<close> assign to its two
  variables. What a call stores behind its request is what \<^verbatim>\<open>getBrandBible\<close> stores on
  the empty cache, and an error stores nothing, so the states that calls overlapping in
  time leave are among these.\<close>

inductive reachable :: "cache \<Rightarrow> bool" where
  start: "reachable initial_cache"
| get: "reachable st \<Longrightarrow> getBrandBible w st = (r, st') \<Longrightarrow> reachable st'"
| clear: "reachable st \<Longrightarrow> reachable (clearCache st)"

section \<open>Accessor Layer\<close>

definition getSection ::
  "world \<Rightarrow> cache \<Rightarrow> string \<Rightarrow> (js_error + BrandSection option) \<times> cache" where
  "getSection w st wantedId =
     (case getBrandBible w st of
        (Inl e, st') \<Rightarrow> (Inl e, st')
      | (Inr data, st') \<Rightarrow> (Inr (find (\<lambda>s. id_sec s = wantedId) (sections data)), st'))"

fun find_subsection :: "BrandSection list \<Rightarrow> string \<Rightarrow> BrandSubsection option" where
  "find_subsection [] wantedId = None"
| "find_subsection (section # rest) wantedId =
     (case find (\<lambda>sub. id_sub sub = wantedId) (subsections section) of
        Some subsection \<Rightarrow> Some subsection
      | None \<Rightarrow> find_subsection rest wantedId)"

definition getSubsection ::
  "world \<Rightarrow> cache \<Rightarrow> string \<Rightarrow> (js_error + BrandSubsection option) \<times> cache" where
  "getSubsection w st wantedId =
     (case getBrandBible w st of
        (Inl e, st') \<Rightarrow> (Inl e, st')
      | (Inr data, st') \<Rightarrow> (Inr (find_subsection (sections data) wantedId), st'))"

text \<open>The terms of a query.\<close>

definition queryTerms_of :: "string \<Rightarrow> string list" where
  "queryTerms_of query =
     (let queryLower = toLowerCase query
      in filter (\<lambda>t. length t > 2) (split_whitespace queryLower))"

text \<open>What the loop of \<^verbatim>\<open>searchBrandBible\<close> pushes for one subsection and for one section
  with its subsections.\<close>

definition subsection_hits ::
  "string list \<Rightarrow> BrandSection \<Rightarrow> BrandSubsection \<Rightarrow> SearchResult list" where
  "subsection_hits queryTerms section sub =
     (let subRelevance =
            calculateRelevance (title_sub sub @ '' '' @ content_sub sub) queryTerms
      in if subRelevance > 0
         then [\<lparr>sectionId = id_sec section, sectionTitle = title_sec section,
                subsectionId = Some (id_sub sub), subsectionTitle = Some (title_sub sub),
                content_res = content_sub sub, relevance = subRelevance\<rparr>]
         else [])"

definition section_hits :: "string list \<Rightarrow> BrandSection \<Rightarrow> SearchResult list" where
  "section_hits queryTerms section =
     (let sectionRelevance =
            calculateRelevance (title_sec section @ '' '' @ content_sec section) queryTerms
      in (if sectionRelevance > 0
          then [\<lparr>sectionId = id_sec section, sectionTitle = title_sec section,
                 subsectionId = None, subsectionTitle = None,
                 content_res = content_sec section, relevance = sectionRelevance\<rparr>]
          else [])
         @ concat (map (subsection_hits queryTerms section) (subsections section)))"

text \<open>\<^verbatim>\<open>results.sort((a, b) => b.relevance - a.relevance)\<close>: the sort of the runtime is
  stable, and the comparison puts the greater relevance first.\<close>

definition sort_by_relevance :: "SearchResult list \<Rightarrow> SearchResult list" where
  "sort_by_relevance results = sort_key (\<lambda>r. - relevance r) results"

text \<open>\<^verbatim>\<open>searchBrandBible\<close> behind its call of \<^verbatim>\<open>getBrandBible\<close>.\<close>

definition search_snapshot :: "BrandBibleData \<Rightarrow> string \<Rightarrow> SearchResult list" where
  "search_snapshot data query =
     (let queryTerms = queryTerms_of query;
          results = concat (map (section_hits queryTerms) (sections data))
      in sort_by_relevance results)"

definition searchBrandBible ::
  "world \<Rightarrow> cache \<Rightarrow> string \<Rightarrow> (js_error + SearchResult list) \<times> cache" where
  "searchBrandBible w st query =
     (case getBrandBible w st of
        (Inl e, st') \<Rightarrow> (Inl e, st')
      | (Inr data, st') \<Rightarrow> (Inr (search_snapshot data query), st'))"

text \<open>Every section and subsection of a snapshot as a search result with its score, in
  the order the loop meets them.\<close>

definition section_candidates :: "string list \<Rightarrow> BrandSection \<Rightarrow> SearchResult list" where
  "section_candidates queryTerms section =
     \<lparr>sectionId = id_sec section, sectionTitle = title_sec section,
      subsectionId = None, subsectionTitle = None,
      content_res = content_sec section,
      relevance = calculateRelevance (title_sec section @ '' '' @ content_sec section) queryTerms\<rparr>
     # map (\<lambda>sub.
              \<lparr>sectionId = id_sec section, sectionTitle = title_sec section,
               subsectionId = Some (id_sub sub), subsectionTitle = Some (title_sub sub),
               content_res = content_sub sub,
               relevance = calculateRelevance (title_sub sub @ '' '' @ content_sub sub) queryTerms\<rparr>)
           (subsections section)"

definition candidates :: "BrandBibleData \<Rightarrow> string \<Rightarrow> SearchResult list" where
  "candidates data query =
     concat (map (section_candidates (queryTerms_of query)) (sections data))"

section \<open>Tool layer\<close>

datatype ResponseFormat = MARKDOWN | JSON

text \<open>What a handler returns: the text of its one content item and, when it has one, the
  structured content.\<close>

record 'o tool_result =
  text_out :: string
  structuredContent :: "'o option"

definition newline :: string where
  "newline = [CHR 0x0A]"

definition squote :: string where
  "squote = [CHR 0x27]"


text \<open>\<^verbatim>\<open>xs.join(sep)\<close>.\<close>

fun join_str :: "string \<Rightarrow> string list \<Rightarrow> string" where
  "join_str sep [] = []"
| "join_str sep [x] = x"
| "join_str sep (x # y # ys) = x @ sep @ join_str sep (y # ys)"




text \<open>The schemas of the two identifier parameters: \<^verbatim>\<open>/^[1-6]$/\<close> for the section tool,
  \<^verbatim>\<open>/^\d+\.\d+$/\<close> for the subsection tool. The framework checks the parameters of a
  call against the schema of the tool before it calls the handler.\<close>

definition section_id_schema :: "string \<Rightarrow> bool" where
  "section_id_schema s =
     (case s of [c] \<Rightarrow> 49 \<le> unit_of c \<and> unit_of c \<le> 54 | _ \<Rightarrow> False)"

definition subsection_id_schema :: "string \<Rightarrow> bool" where
  "subsection_id_schema s =
     (takeWhile is_digit s \<noteq> [] \<and>
      (case dropWhile is_digit s of
         [] \<Rightarrow> False
       | d # r \<Rightarrow> d = CHR ''.'' \<and> r \<noteq> [] \<and> list_all is_digit r))"

record section_output =
  sectionId_out :: string
  title_out :: string
  content_out :: string
  subsections_out :: "BrandSubsection list"
  source_out :: string

text \<open>The handler of \<^verbatim>\<open>sodax_get_section\<close>. \<open>stringify\<close> is \<^verbatim>\<open>JSON.stringify(output, null, 2)\<close>
  of the runtime. The check of the parameters against the schema is the framework's and
  is not part of the handler.\<close>

definition sodax_get_section ::
  "(section_output \<Rightarrow> string) \<Rightarrow> world \<Rightarrow> cache \<Rightarrow> string \<Rightarrow> ResponseFormat
     \<Rightarrow> section_output tool_result \<times> cache" where
  "sodax_get_section stringify w st section_id response_format =
     (case getSection w st section_id of
        (Inl (Error message), st') \<Rightarrow>
          (\<lparr>text_out = ''Error fetching section: '' @ message, structuredContent = None\<rparr>, st')
      | (Inr None, st') \<Rightarrow>
          (\<lparr>text_out = ''Error: Section '' @ squote @ section_id @ squote
                        @ '' not found. Valid sections are 1-6.'',
            structuredContent = None\<rparr>, st')
      | (Inr (Some section), st') \<Rightarrow>
          (let output = \<lparr>sectionId_out = id_sec section, title_out = title_sec section,
                         content_out = content_sec section,
                         subsections_out =
                           map (\<lambda>sub. \<lparr>id_sub = id_sub sub, title_sub = title_sub sub,
                                       content_sub = content_sub sub\<rparr>) (subsections section),
                         source_out = BRAND_BIBLE_URL\<rparr>;
               textContent =
                 (if response_format = MARKDOWN
                  then join_str newline
                         ([''# '' @ id_sec section @ ''. '' @ title_sec section, '''',
                           content_sec section, '''', ''## Subsections'', '''']
                          @ concat (map (\<lambda>sub. [''### '' @ id_sub sub @ '' '' @ title_sub sub,
                                                content_sub sub, ''''])
                                        (subsections section))
                          @ [''---'', ''*Source: '' @ BRAND_BIBLE_URL @ ''*''])
                  else stringify output);
               textContent =
                 (if length textContent > CHARACTER_LIMIT
                  then take CHARACTER_LIMIT textContent @ newline @ newline
                       @ ''[Content truncated. Use sodax_get_subsection for specific subsections.]''
                  else textContent)
           in (\<lparr>text_out = textContent, structuredContent = Some output\<rparr>, st')))"

record subsection_output =
  id_out :: string
  subtitle_out :: string
  subcontent_out :: string
  subsource_out :: string

text \<open>The handler of \<^verbatim>\<open>sodax_get_subsection\<close>.\<close>

definition sodax_get_subsection ::
  "(subsection_output \<Rightarrow> string) \<Rightarrow> world \<Rightarrow> cache \<Rightarrow> string \<Rightarrow> ResponseFormat
     \<Rightarrow> subsection_output tool_result \<times> cache" where
  "sodax_get_subsection stringify w st subsection_id response_format =
     (case getSubsection w st subsection_id of
        (Inl (Error message), st') \<Rightarrow>
          (\<lparr>text_out = ''Error fetching subsection: '' @ message, structuredContent = None\<rparr>,
           st')
      | (Inr None, st') \<Rightarrow>
          (let availableIds = join_str '', '' (map fst SUBSECTION_NAMES)
           in (\<lparr>text_out = ''Error: Subsection '' @ squote @ subsection_id @ squote
                            @ '' not found.'' @ newline @ newline
                            @ ''Available subsections: '' @ availableIds,
                 structuredContent = None\<rparr>, st'))
      | (Inr (Some subsection), st') \<Rightarrow>
          (let output = \<lparr>id_out = id_sub subsection, subtitle_out = title_sub subsection,
                         subcontent_out = content_sub subsection,
                         subsource_out = BRAND_BIBLE_URL\<rparr>;
               textContent =
                 (if response_format = MARKDOWN
                  then join_str newline
                         [''# '' @ id_sub subsection @ '' '' @ title_sub subsection, '''',
                          content_sub subsection, '''', ''---'',
                          ''*Source: '' @ BRAND_BIBLE_URL @ ''*'']
                  else stringify output)
           in (\<lparr>text_out = textContent, structuredContent = Some output\<rparr>, st')))"




text \<open>The handler of \<^verbatim>\<open>sodax_refresh_brand_bible\<close> calls \<^verbatim>\<open>clearCache\<close> and then
  \<^verbatim>\<open>getBrandBible\<close>; what it answers is made of the snapshot it gets or of the message of
  the error.\<close>

definition refresh :: "world \<Rightarrow> cache \<Rightarrow> (js_error + BrandBibleData) \<times> cache" where
  "refresh w st = getBrandBible w (clearCache st)"

section \<open>Sample runs\<close>

text \<open>A small page, an environment in which the request answers with it and the markup
  library reads it as it is, and an environment in which the request times out. The two
  numbers are the two readings of the clock.\<close>

definition sample_page :: string where
  "sample_page = ''1. Brand Essence and Foundations Our brand. 1.1 Brand Overview SODAX in short. 4. Visual Identity Adaptive. 4.1 Logo Usage Keep the logo clear.''"

definition sample_load :: "string \<Rightarrow> js_error + markup_reading" where
  "sample_load html =
     Inr \<lparr>version_read = ''1.0'', lastUpdated_read = ''unknown'', text_read = html\<rparr>"

definition sample_world :: "int \<Rightarrow> int \<Rightarrow> world" where
  "sample_world t0 t1 =
     \<lparr>date_now = t0, axios_get = Response sample_page, cheerio_load = sample_load,
      new_date = t1\<rparr>"

definition sample_timeout :: "int \<Rightarrow> world" where
  "sample_timeout t0 =
     \<lparr>date_now = t0,
      axios_get = AxiosError None (Some ''ECONNABORTED'') ''timeout of 30000ms exceeded'',
      cheerio_load = sample_load, new_date = t0\<rparr>"

text \<open>An environment in which the request answers and the markup library throws.\<close>

definition sample_fail :: "string \<Rightarrow> js_error + markup_reading" where
  "sample_fail html = Inl (Error ''cheerio.load() expects a string'')"

definition sample_unreadable :: "int \<Rightarrow> world" where
  "sample_unreadable t0 =
     \<lparr>date_now = t0, axios_get = Response sample_page, cheerio_load = sample_fail,
      new_date = t0\<rparr>"

text \<open>The sample runs ask for markdown; this stands where \<^verbatim>\<open>JSON.stringify\<close> is passed.\<close>

definition no_json :: "'o \<Rightarrow> string" where
  "no_json output = []"

text \<open>The snapshot assembled from the sample page when the clock reads \<open>t1\<close>, and the cache
  that holds it since \<open>t0\<close>.\<close>

definition sample_snapshot :: "int \<Rightarrow> BrandBibleData" where
  "sample_snapshot t1 =
     \<lparr>version = ''1.0'', lastUpdated = ''unknown'', sections = parseSections sample_page,
      rawContent = sample_page, fetchedAt = t1\<rparr>"

definition sample_cache :: "int \<Rightarrow> int \<Rightarrow> cache" where
  "sample_cache t0 t1 = \<lparr>cachedData = Some (sample_snapshot t1), cacheTimestamp = t0\<rparr>"

section \<open>Properties of the scorer\<close>

lemma split_from_length:
  "sep \<noteq> [] \<Longrightarrow> length (split_from sep cur s) = Suc (occurrences s sep)"
proof (induction sep cur s rule: split_from.induct)
  case (1 sep cur s)
  show ?case
  proof (cases "prefix sep s")
    case True
    with 1 show ?thesis
      by (subst split_from.simps, subst occurrences.simps) simp
  next
    case False
    with 1 show ?thesis
      by (subst split_from.simps, subst occurrences.simps) (simp split: list.splits)
  qed
qed

lemma split_string_length:
  "t \<noteq> [] \<Longrightarrow> int (length (split_string s t)) - 1 = int (occurrences s t)"
  by (simp add: split_string_def split_from_length)

lemma includes_occurrences:
  "t \<noteq> [] \<Longrightarrow> includes_str s t \<Longrightarrow> 1 \<le> occurrences s t"
proof (induction s)
  case Nil
  then show ?case by simp
next
  case (Cons c cs)
  show ?case
  proof (cases "prefix t (c # cs)")
    case True
    with Cons.prems show ?thesis
      by (subst occurrences.simps) simp
  next
    case False
    with Cons show ?thesis
      by (subst occurrences.simps) simp
  qed
qed

lemma occurrences_includes:
  "1 \<le> occurrences s t \<Longrightarrow> includes_str s t"
proof (induction s t rule: occurrences.induct)
  case (1 s t)
  show ?case
  proof (cases "t = []")
    case True
    with "1.prems" show ?thesis by (subst (asm) occurrences.simps) simp
  next
    case False
    note ne = this
    show ?thesis
    proof (cases "prefix t s")
      case True
      then show ?thesis by (cases s) simp_all
    next
      case False
      show ?thesis
      proof (cases s)
        case Nil
        with "1.prems" ne False show ?thesis by (subst (asm) occurrences.simps) simp
      next
        case (Cons c cs)
        with "1.prems" ne False have "1 \<le> occurrences cs t"
          by (subst (asm) occurrences.simps) simp
        with "1.IH"(2) [OF ne False Cons] Cons show ?thesis by simp
      qed
    qed
  qed
qed

lemma fold_score_term:
  "fold (score_term cl) ts acc = acc + sum_list (map (term_contribution cl) ts)"
proof (induction ts arbitrary: acc)
  case Nil
  then show ?case by simp
next
  case (Cons t ts)
  have "score_term cl t acc = acc + term_contribution cl t"
    by (simp add: score_term_def term_contribution_def Let_def)
  with Cons show ?case by (simp add: add.assoc)
qed

lemma fold_score_keyword:
  "fold (score_keyword cl ts) ks acc = acc + fold (score_keyword cl ts) ks 0"
proof (induction ks arbitrary: acc)
  case Nil
  then show ?case by simp
next
  case (Cons k ks)
  have step: "score_keyword cl ts k acc = acc + score_keyword cl ts k 0" for acc
    by (simp add: score_keyword_def)
  have "fold (score_keyword cl ts) (k # ks) acc
        = score_keyword cl ts k acc + fold (score_keyword cl ts) ks 0"
    using Cons.IH [of "score_keyword cl ts k acc"] by simp
  also have "\<dots> = acc + (score_keyword cl ts k 0 + fold (score_keyword cl ts) ks 0)"
    using step [of acc] by simp
  also have "\<dots> = acc + fold (score_keyword cl ts) (k # ks) 0"
    using Cons.IH [of "score_keyword cl ts k 0"] by simp
  finally show ?case .
qed

lemma calculateRelevance_sum:
  "calculateRelevance c ts
     = sum_list (map (term_contribution (toLowerCase c)) ts) + keyword_score (toLowerCase c) ts"
  unfolding calculateRelevance_def direct_score_def keyword_score_def Let_def
  by (subst fold_score_keyword) (simp add: fold_score_term)

lemma term_contribution_occurs:
  assumes "t \<noteq> []" "includes_str cl t"
  shows "term_contribution cl t = 10 + min (int (occurrences cl t)) 5"
  using assms by (simp add: term_contribution_def score_term_def Let_def split_string_length)

lemma term_contribution_absent:
  "\<not> includes_str cl t \<Longrightarrow> term_contribution cl t = 0"
  by (simp add: term_contribution_def score_term_def)

text \<open>
  Claim C1, as the code has it. The score is the sum of what each query term adds in the
  first loop and of what the keywords add in the second. A term \<open>t\<close> of more than two
  characters that occurs in the lower-cased content adds ten plus the number of its
  occurrences there, the first one included (the occurrences that do not overlap, read
  from the left, which is what \<^verbatim>\<open>split\<close> counts), at most five of them: between 11 and 15.
  A term that does not occur adds nothing.
\<close>

theorem direct_occurrence_contribution:
  "calculateRelevance c ts
     = sum_list (map (term_contribution (toLowerCase c)) ts) + keyword_score (toLowerCase c) ts
   \<and> (2 < length t \<longrightarrow>
        (if includes_str (toLowerCase c) t
         then term_contribution (toLowerCase c) t
                = 10 + min (int (occurrences (toLowerCase c) t)) 5
              \<and> 1 \<le> occurrences (toLowerCase c) t
              \<and> 11 \<le> term_contribution (toLowerCase c) t
              \<and> term_contribution (toLowerCase c) t \<le> 15
         else term_contribution (toLowerCase c) t = 0
              \<and> occurrences (toLowerCase c) t = 0))"
proof -
  have "term_contribution (toLowerCase c) t = 10 + min (int (occurrences (toLowerCase c) t)) 5
        \<and> 1 \<le> occurrences (toLowerCase c) t
        \<and> 11 \<le> term_contribution (toLowerCase c) t
        \<and> term_contribution (toLowerCase c) t \<le> 15"
    if "2 < length t" "includes_str (toLowerCase c) t"
  proof -
    from that have ne: "t \<noteq> []" by auto
    have occ: "1 \<le> occurrences (toLowerCase c) t"
      using includes_occurrences [OF ne that(2)] .
    have eq: "term_contribution (toLowerCase c) t = 10 + min (int (occurrences (toLowerCase c) t)) 5"
      using term_contribution_occurs [OF ne that(2)] .
    from occ eq show ?thesis by simp
  qed
  moreover have "occurrences (toLowerCase c) t = 0" if "\<not> includes_str (toLowerCase c) t"
  proof (rule ccontr)
    assume "occurrences (toLowerCase c) t \<noteq> 0"
    then have "1 \<le> occurrences (toLowerCase c) t" by simp
    with that occurrences_includes show False by blast
  qed
  ultimately show ?thesis
    using calculateRelevance_sum term_contribution_absent by simp
qed

text \<open>The term \<^verbatim>\<open>logo\<close> occurs twice in the lower-cased \<^verbatim>\<open>Logo and LOGO\<close> and adds 12.\<close>

theorem direct_occurrence_contribution_witness:
  "length ''logo'' = 4
   \<and> includes_str (toLowerCase ''Logo and LOGO'') ''logo''
   \<and> occurrences (toLowerCase ''Logo and LOGO'') ''logo'' = 2
   \<and> term_contribution (toLowerCase ''Logo and LOGO'') ''logo'' = 12"
proof -
  have inc: "includes_str (toLowerCase ''Logo and LOGO'') ''logo''"
    by code_simp
  have occ: "occurrences (toLowerCase ''Logo and LOGO'') ''logo'' = 2"
    by code_simp
  show ?thesis
    using direct_occurrence_contribution [of "''Logo and LOGO''" "[''logo'']" "''logo''"] inc occ
    by simp
qed

text \<open>
  Claim C1 as the specification words it counts the occurrences after the first only,
  so that a term occurring once would add 10. The content \<^verbatim>\<open>xyzzy\<close> holds the term
  \<^verbatim>\<open>xyzzy\<close> once and no keyword is involved: the score is 11.
\<close>

theorem direct_occurrence_counterexample:
  "calculateRelevance ''xyzzy'' [''xyzzy''] = 11
   \<and> keyword_score (toLowerCase ''xyzzy'') [''xyzzy''] = 0
   \<and> term_contribution (toLowerCase ''xyzzy'') ''xyzzy'' = 11
   \<and> claimed_term_contribution (toLowerCase ''xyzzy'') ''xyzzy'' = 10"
  by code_simp

section \<open>Properties of the search\<close>

lemma sample_hit:
  "t - t0 < 300000 \<Longrightarrow>
   getBrandBible (sample_world t t') (sample_cache t0 t1)
     = (Inr (sample_snapshot t1), sample_cache t0 t1)"
  by (simp add: getBrandBible_def sample_world_def sample_cache_def CACHE_TTL_MS_def)

lemma calculateRelevance_no_terms: "calculateRelevance c [] = 0"
proof -
  have "fold (score_keyword cl []) ks acc = acc" for cl ks acc
    by (induction ks arbitrary: acc) (simp_all add: score_keyword_def)
  then show ?thesis
    by (simp add: calculateRelevance_def direct_score_def Let_def)
qed

lemma section_hits_no_terms: "section_hits [] section = []"
  by (simp add: section_hits_def subsection_hits_def calculateRelevance_no_terms)

lemma search_snapshot_no_terms:
  assumes "queryTerms_of query = []"
  shows "search_snapshot data query = []"
proof -
  have "concat (map (section_hits []) secs) = []" for secs
    by (induction secs) (simp_all add: section_hits_no_terms)
  then have "concat (map (section_hits (queryTerms_of query)) (sections data)) = []"
    by (simp only: assms)
  then show ?thesis
    by (simp only: search_snapshot_def sort_by_relevance_def Let_def sort_key_simps)
qed

lemma candidates_no_terms:
  "queryTerms_of query = [] \<Longrightarrow> r \<in> set (candidates data query) \<Longrightarrow> relevance r = 0"
  by (auto simp: candidates_def section_candidates_def calculateRelevance_no_terms)

lemma queryTerms_of_short:
  "(\<forall>t \<in> set (split_whitespace (toLowerCase query)). length t \<le> 2) \<Longrightarrow> queryTerms_of query = []"
  by (auto simp: queryTerms_of_def Let_def filter_empty_conv)

lemma split_whitespace_empty: "split_whitespace (toLowerCase []) = [[]]"
  by (simp add: split_whitespace_def toLowerCase_def)

text \<open>
  Claim C10. When \<^verbatim>\<open>getBrandBible\<close> delivers a snapshot and the query is empty, or every
  piece of the lower-cased query between runs of white space has at most two characters,
  \<^verbatim>\<open>searchBrandBible\<close> returns the empty list, and every section and subsection of the
  snapshot has the score 0.
\<close>

theorem short_query_finds_nothing:
  assumes "getBrandBible w st = (Inr data, st')"
    and "query = [] \<or> (\<forall>t \<in> set (split_whitespace (toLowerCase query)). length t \<le> 2)"
  shows "searchBrandBible w st query = (Inr [], st')
         \<and> (\<forall>r \<in> set (candidates data query). relevance r = 0)"
proof -
  have "\<forall>t \<in> set (split_whitespace (toLowerCase query)). length t \<le> 2"
    using assms(2) split_whitespace_empty by auto
  then have none: "queryTerms_of query = []"
    by (rule queryTerms_of_short)
  show ?thesis
    using assms(1) none
    by (simp add: searchBrandBible_def search_snapshot_no_terms candidates_no_terms)
qed

text \<open>The query \<^verbatim>\<open>to be\<close> against the sample snapshot, served from the cache.\<close>

theorem short_query_finds_nothing_witness:
  "getBrandBible (sample_world 20000 20000) (sample_cache 0 10000)
     = (Inr (sample_snapshot 10000), sample_cache 0 10000)
   \<and> split_whitespace (toLowerCase ''to be'') = [''to'', ''be'']
   \<and> searchBrandBible (sample_world 20000 20000) (sample_cache 0 10000) ''to be''
       = (Inr [], sample_cache 0 10000)"
proof -
  have hit: "getBrandBible (sample_world 20000 20000) (sample_cache 0 10000)
               = (Inr (sample_snapshot 10000), sample_cache 0 10000)"
    by (simp add: sample_hit)
  have pieces: "split_whitespace (toLowerCase ''to be'') = [''to'', ''be'']"
    by code_simp
  show ?thesis
    using short_query_finds_nothing [OF hit, of "''to be''"] hit pieces by simp
qed










section \<open>Properties of the cache\<close>

lemma getBrandBible_fresh:
  "fresh w st \<Longrightarrow> getBrandBible w st = (Inr (the (cachedData st)), st)"
  by (simp add: getBrandBible_def fresh_def Let_def)

lemma getBrandBible_stale:
  "\<not> fresh w st \<Longrightarrow>
   getBrandBible w st =
     (case fetchBrandBibleHtml (axios_get w) of
        Inl e \<Rightarrow> (Inl e, st)
      | Inr html \<Rightarrow>
          (case parseBrandBible w html of
             Inl e \<Rightarrow> (Inl e, st)
           | Inr data \<Rightarrow> (Inr data, \<lparr>cachedData = Some data, cacheTimestamp = date_now w\<rparr>)))"
  by (auto simp: getBrandBible_def fresh_def Let_def)

lemma parseBrandBible_fetchedAt:
  "parseBrandBible w html = Inr data \<Longrightarrow> fetchedAt data = new_date w"
  by (auto simp: parseBrandBible_def Let_def split: sum.splits)

lemma parseBrandBible_assembled:
  "parseBrandBible w html = Inr data \<Longrightarrow> assembled data"
  by (auto simp: parseBrandBible_def assembled_def Let_def split: sum.splits)

lemma getBrandBible_rebuilt:
  assumes "\<not> fresh w st" "getBrandBible w st = (Inr data, st')"
  shows "fetchedAt data = new_date w
         \<and> st' = \<lparr>cachedData = Some data, cacheTimestamp = date_now w\<rparr>
         \<and> assembled data"
  using assms
  by (auto simp: getBrandBible_stale parseBrandBible_fetchedAt parseBrandBible_assembled
           split: sum.splits)

lemma getBrandBible_error:
  "getBrandBible w st = (Inl e, st') \<Longrightarrow> st' = st"
  by (cases "fresh w st") (auto simp: getBrandBible_fresh getBrandBible_stale split: sum.splits)

lemma getBrandBible_assembled:
  assumes "cache_assembled st" "getBrandBible w st = (r, st')"
  shows "cache_assembled st' \<and> (\<forall>data. r = Inr data \<longrightarrow> assembled data)"
proof (cases "fresh w st")
  case True
  with assms show ?thesis
    by (auto simp: getBrandBible_fresh fresh_def cache_assembled_def)
next
  case False
  with assms show ?thesis
    by (auto simp: getBrandBible_stale cache_assembled_def parseBrandBible_assembled
             split: sum.splits)
qed

lemma reachable_assembled: "reachable st \<Longrightarrow> cache_assembled st"
proof (induction rule: reachable.induct)
  case start
  show ?case by (simp add: cache_assembled_def initial_cache_def)
next
  case (get st w r st')
  then show ?case using getBrandBible_assembled by blast
next
  case (clear st)
  show ?case by (simp add: cache_assembled_def clearCache_def)
qed

lemma sample_first:
  "getBrandBible (sample_world t0 t1) initial_cache = (Inr (sample_snapshot t1), sample_cache t0 t1)"
  by (simp add: getBrandBible_def initial_cache_def sample_world_def fetchBrandBibleHtml_def
      parseBrandBible_def sample_load_def sample_snapshot_def sample_cache_def)

lemma sample_cache_reachable: "reachable (sample_cache t0 t1)"
  using reachable.get [OF reachable.start sample_first] .

lemma sample_rebuild:
  "300000 \<le> t - t0 \<Longrightarrow>
   getBrandBible (sample_world t t') (sample_cache t0 t1)
     = (Inr (sample_snapshot t'), sample_cache t t')"
  by (simp add: getBrandBible_def sample_world_def fetchBrandBibleHtml_def CACHE_TTL_MS_def
      parseBrandBible_def sample_load_def sample_snapshot_def sample_cache_def)

text \<open>
  Claim C3. An error of \<^verbatim>\<open>getBrandBible\<close> leaves the two variables of the cache as they
  were. When the call rebuilds (there is no snapshot, or the time to live has passed)
  and the request fails, or the request answers and reading the markup fails, the call
  fails with that very error and the snapshot and its timestamp are the previous ones.
\<close>

theorem failed_rebuild_keeps_cache:
  "(getBrandBible w st = (Inl e, st') \<longrightarrow> st' = st)
   \<and> (\<not> fresh w st \<and> fetchBrandBibleHtml (axios_get w) = Inl e
        \<longrightarrow> getBrandBible w st = (Inl e, st))
   \<and> (\<not> fresh w st \<and> fetchBrandBibleHtml (axios_get w) = Inr html
        \<and> parseBrandBible w html = Inl e
        \<longrightarrow> getBrandBible w st = (Inl e, st))"
  using getBrandBible_error [of w st e st']
  by (simp add: getBrandBible_stale)

text \<open>A cache that holds the sample snapshot since 0, asked 400 seconds later: the request
  times out, or the markup library throws.\<close>

theorem failed_rebuild_keeps_cache_witness:
  "getBrandBible (sample_timeout 400000) (sample_cache 0 10000)
     = (Inl (Error ''Request timed out while fetching Brand Bible. Please try again.''),
        sample_cache 0 10000)
   \<and> getBrandBible (sample_unreadable 400000) (sample_cache 0 10000)
     = (Inl (Error ''cheerio.load() expects a string''), sample_cache 0 10000)"
proof -
  have stale1: "\<not> fresh (sample_timeout 400000) (sample_cache 0 10000)"
    by (simp add: fresh_def sample_timeout_def sample_cache_def CACHE_TTL_MS_def)
  have fetch1: "fetchBrandBibleHtml (axios_get (sample_timeout 400000))
                 = Inl (Error ''Request timed out while fetching Brand Bible. Please try again.'')"
    by (simp add: fetchBrandBibleHtml_def sample_timeout_def)
  have stale2: "\<not> fresh (sample_unreadable 400000) (sample_cache 0 10000)"
    by (simp add: fresh_def sample_unreadable_def sample_cache_def CACHE_TTL_MS_def)
  have fetch2: "fetchBrandBibleHtml (axios_get (sample_unreadable 400000)) = Inr sample_page"
    by (simp add: fetchBrandBibleHtml_def sample_unreadable_def)
  have parse2: "parseBrandBible (sample_unreadable 400000) sample_page
                 = Inl (Error ''cheerio.load() expects a string'')"
    by (simp add: parseBrandBible_def sample_unreadable_def sample_fail_def)
  from failed_rebuild_keeps_cache
         [of "sample_timeout 400000" "sample_cache 0 10000"
             "Error ''Request timed out while fetching Brand Bible. Please try again.''"]
       stale1 fetch1
  have one: "getBrandBible (sample_timeout 400000) (sample_cache 0 10000)
     = (Inl (Error ''Request timed out while fetching Brand Bible. Please try again.''),
        sample_cache 0 10000)"
    by blast
  from failed_rebuild_keeps_cache
         [of "sample_unreadable 400000" "sample_cache 0 10000"
             "Error ''cheerio.load() expects a string''" _ sample_page]
       stale2 fetch2 parse2
  have two: "getBrandBible (sample_unreadable 400000) (sample_cache 0 10000)
     = (Inl (Error ''cheerio.load() expects a string''), sample_cache 0 10000)"
    by blast
  from one two show ?thesis by simp
qed

lemma getBrandBible_split:
  "getBrandBible w st =
     (case getBrandBible_enter w st of
        Hit data \<Rightarrow> (Inr data, st)
      | Pending now \<Rightarrow> getBrandBible_resume w now st)"
  by (simp add: getBrandBible_def getBrandBible_enter_def getBrandBible_resume_def Let_def)

lemma getBrandBible_resume_stored:
  assumes "getBrandBible_resume w now st = (Inr data, st')"
  shows "fetchedAt data = new_date w
         \<and> st' = \<lparr>cachedData = Some data, cacheTimestamp = now\<rparr>"
  using assms
  by (auto simp: getBrandBible_resume_def parseBrandBible_fetchedAt split: sum.splits)

lemma getBrandBible_resume_any:
  assumes "axios_get w = Response html" "cheerio_load w html = Inr reading"
  shows "\<exists>data. fetchedAt data = new_date w
          \<and> (\<forall>st. getBrandBible_resume w now st
                     = (Inr data, \<lparr>cachedData = Some data, cacheTimestamp = now\<rparr>))"
  using assms
  by (simp add: getBrandBible_resume_def fetchBrandBibleHtml_def parseBrandBible_def Let_def)

lemma sample_resume:
  "getBrandBible_resume (sample_world t t') now st = (Inr (sample_snapshot t'), sample_cache now t')"
  by (simp add: getBrandBible_resume_def sample_world_def fetchBrandBibleHtml_def
      parseBrandBible_def sample_load_def sample_snapshot_def sample_cache_def)

lemma sample_now: "date_now (sample_world t t') = t"
  by (simp add: sample_world_def)

lemma sample_enter_empty: "getBrandBible_enter (sample_world t t') initial_cache = Pending t"
  by (simp add: getBrandBible_enter_def initial_cache_def sample_world_def)

text \<open>
  Claim C2, as the code has it. Let a call of \<^verbatim>\<open>getBrandBible\<close> that entered with the clock
  reading \<open>date_now w1\<close> make and store the snapshot \<open>d1\<close> behind its request, whatever
  the cache held by then; \<open>st1\<close> is the cache as it leaves it. The timestamp it stores
  is the clock it read on entry, before the request, not the time of the store. Now let
  a second call enter on \<open>st1\<close>: after the snapshot was stored, and with no
  \<^verbatim>\<open>clearCache\<close> and no store of another call in between. If it reads on entry a clock
  less than the time to live past the reading of the first call on entry, it returns
  \<open>d1\<close> itself at once and leaves the cache as it is. If it reads a clock at least the
  time to live past that reading, it starts a request; when the request answers and the
  markup is read, it returns and stores, whatever the cache holds by then, a snapshot
  whose \<open>fetchedAt\<close> is the clock read when the snapshot is made. When the clock does not
  run backwards and the time to live has passed since \<open>d1\<close> was made, the snapshot
  returned is newer than \<open>d1\<close>. A call that enters before \<open>d1\<close> is stored is not
  covered: see \<open>overlapping_calls\<close> below.
\<close>

theorem cache_window:
  assumes stored: "getBrandBible_resume w1 (date_now w1) st0 = (Inr d1, st1)"
  shows "st1 = \<lparr>cachedData = Some d1, cacheTimestamp = date_now w1\<rparr>
       \<and> (date_now w2 - date_now w1 < CACHE_TTL_MS
            \<longrightarrow> getBrandBible_enter w2 st1 = Hit d1 \<and> getBrandBible w2 st1 = (Inr d1, st1))
       \<and> (CACHE_TTL_MS \<le> date_now w2 - date_now w1
            \<longrightarrow> getBrandBible_enter w2 st1 = Pending (date_now w2)
               \<and> getBrandBible w2 st1 = getBrandBible_resume w2 (date_now w2) st1
               \<and> (axios_get w2 = Response html \<longrightarrow> cheerio_load w2 html = Inr reading
                    \<longrightarrow> (\<exists>d2. fetchedAt d2 = new_date w2
                           \<and> (\<forall>st. getBrandBible_resume w2 (date_now w2) st
                                  = (Inr d2, \<lparr>cachedData = Some d2,
                                              cacheTimestamp = date_now w2\<rparr>)))))
       \<and> (date_now w1 \<le> new_date w1 \<longrightarrow> CACHE_TTL_MS \<le> date_now w2 - new_date w1
            \<longrightarrow> date_now w2 \<le> new_date w2
            \<longrightarrow> getBrandBible_resume w2 (date_now w2) st = (Inr d2, st2)
            \<longrightarrow> fetchedAt d1 < fetchedAt d2)"
proof -
  from getBrandBible_resume_stored [OF stored]
  have f1: "fetchedAt d1 = new_date w1"
    and s1: "st1 = \<lparr>cachedData = Some d1, cacheTimestamp = date_now w1\<rparr>"
    by simp_all
  have a: "getBrandBible_enter w2 st1 = Hit d1 \<and> getBrandBible w2 st1 = (Inr d1, st1)"
    if "date_now w2 - date_now w1 < CACHE_TTL_MS"
    using that s1 by (simp add: getBrandBible_split getBrandBible_enter_def)
  have p: "getBrandBible_enter w2 st1 = Pending (date_now w2)
           \<and> getBrandBible w2 st1 = getBrandBible_resume w2 (date_now w2) st1"
    if "CACHE_TTL_MS \<le> date_now w2 - date_now w1"
    using that s1 by (simp add: getBrandBible_split getBrandBible_enter_def)
  have b: "\<exists>d2. fetchedAt d2 = new_date w2
               \<and> (\<forall>st. getBrandBible_resume w2 (date_now w2) st
                      = (Inr d2, \<lparr>cachedData = Some d2, cacheTimestamp = date_now w2\<rparr>))"
    if "axios_get w2 = Response html" "cheerio_load w2 html = Inr reading"
    using getBrandBible_resume_any [OF that] .
  have c: "fetchedAt d1 < fetchedAt d2"
    if "date_now w1 \<le> new_date w1" "CACHE_TTL_MS \<le> date_now w2 - new_date w1"
       "date_now w2 \<le> new_date w2" "getBrandBible_resume w2 (date_now w2) st = (Inr d2, st2)"
  proof -
    from getBrandBible_resume_stored [OF that(4)]
    have "fetchedAt d2 = new_date w2" by simp
    with that(2,3) f1 show ?thesis by (simp add: CACHE_TTL_MS_def)
  qed
  from s1 a p b c show ?thesis by blast
qed

text \<open>The sample snapshot is built by a call that enters at 0 and assembles it 10 seconds
  later. A call that enters on that cache 200 seconds after the entry of the first is
  served from the cache; a call 400 seconds after it rebuilds.\<close>

theorem cache_window_witness:
  "getBrandBible_resume (sample_world 0 10000) 0 initial_cache
     = (Inr (sample_snapshot 10000), sample_cache 0 10000)
   \<and> getBrandBible (sample_world 0 10000) initial_cache
     = (Inr (sample_snapshot 10000), sample_cache 0 10000)
   \<and> getBrandBible (sample_world 200000 200500) (sample_cache 0 10000)
     = (Inr (sample_snapshot 10000), sample_cache 0 10000)
   \<and> getBrandBible_enter (sample_world 400000 400500) (sample_cache 0 10000) = Pending 400000
   \<and> getBrandBible (sample_world 400000 400500) (sample_cache 0 10000)
     = (Inr (sample_snapshot 400500), sample_cache 400000 400500)
   \<and> fetchedAt (sample_snapshot 10000) < fetchedAt (sample_snapshot 400500)"
proof -
  have stored: "getBrandBible_resume (sample_world 0 10000) (date_now (sample_world 0 10000))
                  initial_cache = (Inr (sample_snapshot 10000), sample_cache 0 10000)"
    by (simp add: sample_resume sample_now)
  have first: "getBrandBible (sample_world 0 10000) initial_cache
                 = (Inr (sample_snapshot 10000), sample_cache 0 10000)"
    by (rule sample_first)
  have resumed: "getBrandBible_resume (sample_world 400000 400500)
                   (date_now (sample_world 400000 400500)) (sample_cache 0 10000)
                   = (Inr (sample_snapshot 400500), sample_cache 400000 400500)"
    by (simp add: sample_resume sample_now)
  have early: "date_now (sample_world 200000 200500) - date_now (sample_world 0 10000)
                 < CACHE_TTL_MS"
    by (simp add: sample_now CACHE_TTL_MS_def)
  have late: "CACHE_TTL_MS
                \<le> date_now (sample_world 400000 400500) - date_now (sample_world 0 10000)"
    by (simp add: sample_now CACHE_TTL_MS_def)
  have clocks: "date_now (sample_world 0 10000) \<le> new_date (sample_world 0 10000)
                \<and> CACHE_TTL_MS
                    \<le> date_now (sample_world 400000 400500) - new_date (sample_world 0 10000)
                \<and> date_now (sample_world 400000 400500) \<le> new_date (sample_world 400000 400500)"
    by (simp add: sample_world_def CACHE_TTL_MS_def)
  have hit: "getBrandBible (sample_world 200000 200500) (sample_cache 0 10000)
          = (Inr (sample_snapshot 10000), sample_cache 0 10000)"
    using cache_window [OF stored, of "sample_world 200000 200500"] early
    by blast
  have miss: "getBrandBible_enter (sample_world 400000 400500) (sample_cache 0 10000)
                = Pending (date_now (sample_world 400000 400500))
              \<and> getBrandBible (sample_world 400000 400500) (sample_cache 0 10000)
                = getBrandBible_resume (sample_world 400000 400500)
                    (date_now (sample_world 400000 400500)) (sample_cache 0 10000)"
    using cache_window [OF stored, of "sample_world 400000 400500"] late
    by blast
  have newer: "fetchedAt (sample_snapshot 10000) < fetchedAt (sample_snapshot 400500)"
    using cache_window [OF stored, of "sample_world 400000 400500" _ _ "sample_cache 0 10000"
                          "sample_snapshot 400500" "sample_cache 400000 400500"] resumed clocks
    by blast
  from stored first hit miss resumed newer show ?thesis
    by (simp add: sample_now)
qed

text \<open>
  Claim C2 as the specification words it measures the time to live from the moment the
  snapshot was stored. The call that builds the sample snapshot enters at 0 and stores
  it 10 seconds later; no other call runs meanwhile. A call that enters at 305 seconds
  comes 295 seconds after the snapshot was stored, which is less than the time to live,
  and yet it rebuilds: it returns a snapshot with another \<open>fetchedAt\<close>.
\<close>

theorem cache_window_counterexample:
  "getBrandBible (sample_world 0 10000) initial_cache
     = (Inr (sample_snapshot 10000), sample_cache 0 10000)
   \<and> 305000 - fetchedAt (sample_snapshot 10000) < CACHE_TTL_MS
   \<and> getBrandBible (sample_world 305000 306000) (sample_cache 0 10000)
     = (Inr (sample_snapshot 306000), sample_cache 305000 306000)
   \<and> fetchedAt (sample_snapshot 306000) \<noteq> fetchedAt (sample_snapshot 10000)"
  by (simp add: sample_first sample_rebuild sample_snapshot_def CACHE_TTL_MS_def)

text \<open>
  Two calls that overlap. The first enters at 0 on the empty cache and starts its
  request; the second enters at 5 seconds, before the first has stored anything, finds
  no snapshot and starts a request of its own. The second stores its snapshot at 6
  seconds, the first overwrites it at 10 seconds: the two calls return different
  snapshots, though the second entered within the time to live of the first.
\<close>

lemma overlapping_calls:
  "getBrandBible_enter (sample_world 0 10000) initial_cache = Pending 0
   \<and> getBrandBible_enter (sample_world 5000 6000) initial_cache = Pending 5000
   \<and> getBrandBible_resume (sample_world 5000 6000) 5000 initial_cache
     = (Inr (sample_snapshot 6000), sample_cache 5000 6000)
   \<and> getBrandBible_resume (sample_world 0 10000) 0 (sample_cache 5000 6000)
     = (Inr (sample_snapshot 10000), sample_cache 0 10000)
   \<and> fetchedAt (sample_snapshot 6000) \<noteq> fetchedAt (sample_snapshot 10000)"
  by (simp add: sample_resume sample_enter_empty sample_snapshot_def)


lemma refresh_rebuilds: "\<not> fresh w (clearCache st)"
  by (simp add: fresh_def clearCache_def)

text \<open>
  Claim C8, as the code has it. A refresh never serves the cache: it does what
  \<^verbatim>\<open>getBrandBible\<close> does on the empty cache. When it succeeds, the \<open>fetchedAt\<close> of the new
  snapshot is the clock read when the snapshot is made, and the new snapshot is stored
  with the clock read on entry. So the new \<open>fetchedAt\<close> is not below the one of the
  snapshot replaced when that clock reading is not, and it is strictly greater exactly
  when that clock reading is; the code compares no clock readings.
\<close>

theorem refresh_fetchedAt:
  "refresh w st = getBrandBible w initial_cache
   \<and> (refresh w st = (Inr d', st')
        \<longrightarrow> fetchedAt d' = new_date w
            \<and> st' = \<lparr>cachedData = Some d', cacheTimestamp = date_now w\<rparr>
            \<and> (cachedData st = Some d \<longrightarrow> fetchedAt d \<le> new_date w \<longrightarrow> fetchedAt d \<le> fetchedAt d')
            \<and> (cachedData st = Some d \<longrightarrow> (fetchedAt d < fetchedAt d') = (fetchedAt d < new_date w)))"
proof -
  have "fetchedAt d' = new_date w \<and> st' = \<lparr>cachedData = Some d', cacheTimestamp = date_now w\<rparr>"
    if "refresh w st = (Inr d', st')"
    using getBrandBible_rebuilt [OF refresh_rebuilds, of w st d' st'] that
    by (simp add: refresh_def)
  then show ?thesis
    by (auto simp: refresh_def clearCache_def initial_cache_def)
qed


text \<open>A refresh 60 seconds after the sample snapshot was made.\<close>

theorem refresh_fetchedAt_witness:
  "refresh (sample_world 70000 70500) (sample_cache 0 10000)
     = (Inr (sample_snapshot 70500), sample_cache 70000 70500)
   \<and> cachedData (sample_cache 0 10000) = Some (sample_snapshot 10000)
   \<and> fetchedAt (sample_snapshot 10000) < fetchedAt (sample_snapshot 70500)"
proof -
  have r: "refresh (sample_world 70000 70500) (sample_cache 0 10000)
             = (Inr (sample_snapshot 70500), sample_cache 70000 70500)"
    by (simp add: refresh_def clearCache_def sample_first [unfolded initial_cache_def])
  have c: "cachedData (sample_cache 0 10000) = Some (sample_snapshot 10000)"
    by (simp add: sample_cache_def)
  have n: "fetchedAt (sample_snapshot 10000) < new_date (sample_world 70000 70500)"
    by (simp add: sample_snapshot_def sample_world_def)
  from refresh_fetchedAt
         [of "sample_world 70000 70500" "sample_cache 0 10000" "sample_snapshot 70500"
             "sample_cache 70000 70500" "sample_snapshot 10000"] r c n
  have "fetchedAt (sample_snapshot 10000) < fetchedAt (sample_snapshot 70500)"
    by blast
  with r c show ?thesis by simp
qed

text \<open>
  Claim C8 as the specification words it: always strictly greater. The clock has the
  resolution of a millisecond and is the wall clock. A refresh that assembles its snapshot
  in the millisecond in which the snapshot it replaces was made gives an equal
  \<open>fetchedAt\<close>; a refresh after the wall clock was set back gives a smaller one.
\<close>

theorem refresh_fetchedAt_counterexample:
  "refresh (sample_world 10000 10000) (sample_cache 0 10000)
     = (Inr (sample_snapshot 10000), sample_cache 10000 10000)
   \<and> \<not> fetchedAt (sample_snapshot 10000) < fetchedAt (sample_snapshot 10000)
   \<and> refresh (sample_world 9000 9500) (sample_cache 0 10000)
     = (Inr (sample_snapshot 9500), sample_cache 9000 9500)
   \<and> fetchedAt (sample_snapshot 9500) < fetchedAt (sample_snapshot 10000)"
  by (simp add: refresh_def clearCache_def sample_first [unfolded initial_cache_def]
      sample_snapshot_def)

section \<open>Properties of the segmenter\<close>

lemma slice0_length: "0 \<le> n \<Longrightarrow> length (slice0 xs n) \<le> nat n"
  by (simp add: slice0_def)

lemma slice0_empty: "0 < n \<Longrightarrow> (slice0 xs n = []) = (xs = [])"
  by (simp add: slice0_def)

lemma all_dropWhile: "(\<forall>x \<in> set (dropWhile P xs). P x) = (\<forall>x \<in> set xs. P x)"
  by (induction xs) auto

lemma trim_empty: "(trim s = []) = (\<forall>c \<in> set s. is_space c)"
  by (simp add: trim_def all_dropWhile)

lemma default_description_length:
  "length (getDefaultSectionDescription num) \<le> 186"
  by (simp add: getDefaultSectionDescription_def descriptions_def)

lemma default_description_nonempty:
  "getDefaultSectionDescription num \<noteq> []"
  by (simp add: getDefaultSectionDescription_def descriptions_def)

lemma extractSectionContent_length:
  "length (extractSectionContent content num name) \<le> 2000"
proof (cases "first_match (section_match_here num name) content")
  case None
  then show ?thesis
    using default_description_length [of num] by (simp add: extractSectionContent_def)
next
  case (Some capture)
  then show ?thesis
    using slice0_length [of 2000 "trim capture"] by (simp add: extractSectionContent_def)
qed

lemma extractSubsectionContent_length:
  assumes "length subName \<le> 35"
  shows "length (extractSubsectionContent content subId subName) \<le> 1500"
proof (cases "first_match (subsection_match_here subId subName) content")
  case None
  then show ?thesis
    using assms by (simp add: extractSubsectionContent_def)
next
  case (Some capture)
  then show ?thesis
    using slice0_length [of 1500 "trim capture"] by (simp add: extractSubsectionContent_def)
qed

lemma subsection_names_short:
  "(subId, subName) \<in> set SUBSECTION_NAMES \<Longrightarrow> length subName \<le> 35"
  by (auto simp: SUBSECTION_NAMES_def)

lemma parseSubsections_member:
  assumes "sub \<in> set (parseSubsections content num)"
  shows "(id_sub sub, title_sub sub) \<in> set SUBSECTION_NAMES
         \<and> content_sub sub = extractSubsectionContent content (id_sub sub) (title_sub sub)"
  using assms by (auto simp: parseSubsections_def)

lemma parseSections_member:
  assumes "section \<in> set (parseSections content)"
  shows "(id_sec section, title_sec section) \<in> set SECTION_NAMES
         \<and> content_sec section = extractSectionContent content (id_sec section) (title_sec section)
         \<and> subsections section = parseSubsections content (id_sec section)"
  using assms by (auto simp: parseSections_def)

text \<open>
  Claim C7. Whatever the flattened text, the segmentation has six sections, the content
  of each has at most 2000 characters and the content of each of its subsections at most
  1500. That holds for the texts put in when no pattern matches as well: the default
  description of a section, and the placeholder of every subsection of the taxonomy. So
  it holds of every snapshot that \<^verbatim>\<open>getBrandBible\<close> delivers in a state the module can
  reach.
\<close>

theorem content_length_bounds:
  "length (parseSections content) = 6
   \<and> (section \<in> set (parseSections content) \<longrightarrow>
        length (content_sec section) \<le> 2000
        \<and> (sub \<in> set (subsections section) \<longrightarrow> length (content_sub sub) \<le> 1500))
   \<and> length (getDefaultSectionDescription sectionNum) \<le> 2000
   \<and> ((subId, subName) \<in> set SUBSECTION_NAMES \<longrightarrow>
        length (''Content for '' @ subName @ ''. Please refer to the full Brand Bible for details.'')
          \<le> 1500)
   \<and> (reachable st \<longrightarrow> getBrandBible w st = (Inr data, st') \<longrightarrow>
        section' \<in> set (sections data) \<longrightarrow>
        length (content_sec section') \<le> 2000
        \<and> (sub' \<in> set (subsections section') \<longrightarrow> length (content_sub sub') \<le> 1500))"
proof -
  have n: "length (parseSections content) = 6"
    by (simp add: parseSections_def SECTION_NAMES_def)
  have s: "length (content_sec sec) \<le> 2000" if "sec \<in> set (parseSections flat)" for sec flat
    using parseSections_member [OF that] by (simp add: extractSectionContent_length)
  have b: "length (content_sub x) \<le> 1500"
    if "sec \<in> set (parseSections flat)" "x \<in> set (subsections sec)" for sec x flat
  proof -
    from parseSections_member [OF that(1)] that(2)
    have "x \<in> set (parseSubsections flat (id_sec sec))" by simp
    from parseSubsections_member [OF this]
    have m: "(id_sub x, title_sub x) \<in> set SUBSECTION_NAMES"
      and c: "content_sub x = extractSubsectionContent flat (id_sub x) (title_sub x)"
      by simp_all
    from extractSubsectionContent_length [OF subsection_names_short [OF m]] c
    show ?thesis by simp
  qed
  have d: "length (getDefaultSectionDescription sectionNum) \<le> 2000"
    using default_description_length [of sectionNum] by simp
  have f: "length (''Content for '' @ subName @ ''. Please refer to the full Brand Bible for details.'')
          \<le> 1500" if "(subId, subName) \<in> set SUBSECTION_NAMES"
    using subsection_names_short [OF that] by simp
  have g: "sections data = parseSections (rawContent data)"
    if "reachable st" "getBrandBible w st = (Inr data, st')"
    using getBrandBible_assembled [OF reachable_assembled [OF that(1)] that(2)]
    by (simp add: assembled_def)
  from n s b d f g show ?thesis by metis
qed

text \<open>The first section of the sample page and its first subsection, in the segmentation
  and in the snapshot served from the cache.\<close>

theorem content_length_bounds_witness:
  "content_sec (parseSections sample_page ! 0) = ''Our brand. 1.1 Brand Overview SODAX in short.''
   \<and> length (content_sec (parseSections sample_page ! 0)) \<le> 2000
   \<and> id_sub (subsections (parseSections sample_page ! 0) ! 0) = ''1.1''
   \<and> length (content_sub (subsections (parseSections sample_page ! 0) ! 0)) \<le> 1500
   \<and> getBrandBible (sample_world 20000 20000) (sample_cache 0 10000)
       = (Inr (sample_snapshot 10000), sample_cache 0 10000)
   \<and> length (content_sec (sections (sample_snapshot 10000) ! 0)) \<le> 2000
   \<and> length (content_sub (subsections (sections (sample_snapshot 10000) ! 0) ! 0)) \<le> 1500"
proof -
  let ?sec = "parseSections sample_page ! 0"
  let ?sub = "subsections ?sec ! 0"
  have six: "length (parseSections sample_page) = 6"
    using content_length_bounds [of sample_page] by blast
  then have m: "?sec \<in> set (parseSections sample_page)"
    by simp
  have sec: "?sec = \<lparr>id_sec = ''1'', title_sec = ''Brand Essence and Foundations'',
                     content_sec = extractSectionContent sample_page ''1''
                                     ''Brand Essence and Foundations'',
                     subsections = parseSubsections sample_page ''1''\<rparr>"
    by (simp add: parseSections_def SECTION_NAMES_def)
  have subs: "map id_sub (parseSubsections sample_page ''1'')
                = [''1.1'', ''1.2'', ''1.3'', ''1.4'', ''1.5'', ''1.6'']"
    by (simp add: parseSubsections_def SUBSECTION_NAMES_def startsWith_def)
  then have "length (map id_sub (parseSubsections sample_page ''1'')) = 6"
    by simp
  then have n: "0 < length (subsections ?sec)"
    using sec by simp
  then have ms: "?sub \<in> set (subsections ?sec)"
    by simp
  have i: "id_sub ?sub = ''1.1''"
    using subs n sec by (simp add: nth_map [symmetric])
  have c: "extractSectionContent sample_page ''1'' ''Brand Essence and Foundations''
             = ''Our brand. 1.1 Brand Overview SODAX in short.''"
    by code_simp
  have hit: "getBrandBible (sample_world 20000 20000) (sample_cache 0 10000)
               = (Inr (sample_snapshot 10000), sample_cache 0 10000)"
    by (simp add: sample_hit)
  have same: "sections (sample_snapshot 10000) = parseSections sample_page"
    by (simp add: sample_snapshot_def)
  from content_length_bounds [of sample_page ?sec ?sub] m ms
  have one: "length (content_sec ?sec) \<le> 2000 \<and> length (content_sub ?sub) \<le> 1500"
    by blast
  from content_length_bounds
         [of _ _ _ _ _ _ "sample_cache 0 10000" "sample_world 20000 20000"
             "sample_snapshot 10000" "sample_cache 0 10000" ?sec ?sub]
       sample_cache_reachable [of 0 10000] hit m ms same
  have two: "length (content_sec (sections (sample_snapshot 10000) ! 0)) \<le> 2000
             \<and> length (content_sub (subsections (sections (sample_snapshot 10000) ! 0) ! 0))
                 \<le> 1500"
    by simp
  from one two hit sec c i show ?thesis by simp
qed

text \<open>
  Claim C4, as the code has it, for every flattened text and every section and
  subsection of the taxonomy. When the pattern of a section does not match, the
  content is the default description, which is never empty; when the pattern of a
  subsection does not match, it is the placeholder, which is never empty. When a pattern
  matches, the content is the captured text, trimmed and cut to 2000 or 1500 characters,
  and it is empty exactly when the captured text has no character other than white space:
  the code tests the match, not the text it captured.
\<close>

theorem segment_content_empty:
  assumes "(sectionNum, sectionName) \<in> set SECTION_NAMES"
    and "(subId, subName) \<in> set SUBSECTION_NAMES"
  shows
  "(first_match (section_match_here sectionNum sectionName) content = None \<longrightarrow>
      extractSectionContent content sectionNum sectionName = getDefaultSectionDescription sectionNum
      \<and> extractSectionContent content sectionNum sectionName \<noteq> [])
   \<and> (first_match (section_match_here sectionNum sectionName) content = Some capture \<longrightarrow>
      extractSectionContent content sectionNum sectionName = slice0 (trim capture) 2000
      \<and> (extractSectionContent content sectionNum sectionName = []) = (\<forall>c \<in> set capture. is_space c))
   \<and> (first_match (subsection_match_here subId subName) content = None \<longrightarrow>
      extractSubsectionContent content subId subName
        = ''Content for '' @ subName @ ''. Please refer to the full Brand Bible for details.''
      \<and> extractSubsectionContent content subId subName \<noteq> [])
   \<and> (first_match (subsection_match_here subId subName) content = Some capture' \<longrightarrow>
      extractSubsectionContent content subId subName = slice0 (trim capture') 1500
      \<and> (extractSubsectionContent content subId subName = []) = (\<forall>c \<in> set capture'. is_space c))"
proof -
  have fallback: "extractSectionContent content sectionNum sectionName
                    = getDefaultSectionDescription sectionNum"
    if "first_match (section_match_here sectionNum sectionName) content = None"
    using that by (simp add: extractSectionContent_def)
  have cut: "extractSectionContent content sectionNum sectionName = slice0 (trim capture) 2000"
    if "first_match (section_match_here sectionNum sectionName) content = Some capture"
    using that by (simp add: extractSectionContent_def)
  have placeholder: "extractSubsectionContent content subId subName
        = ''Content for '' @ subName @ ''. Please refer to the full Brand Bible for details.''"
    if "first_match (subsection_match_here subId subName) content = None"
    using that by (simp add: extractSubsectionContent_def)
  have cut': "extractSubsectionContent content subId subName = slice0 (trim capture') 1500"
    if "first_match (subsection_match_here subId subName) content = Some capture'"
    using that by (simp add: extractSubsectionContent_def)
  have blank: "(slice0 (trim x) n = []) = (\<forall>c \<in> set x. is_space c)" if "0 < n" for x n
    using that by (simp add: slice0_empty trim_empty)
  from fallback cut placeholder cut' show ?thesis
    by (simp add: blank default_description_nonempty)
qed

text \<open>On the sample page the section 2 is not found and the subsection 4.1 is.\<close>

theorem segment_content_empty_witness:
  "first_match (section_match_here ''2'' ''Positioning and Messaging Architecture'') sample_page
     = None
   \<and> extractSectionContent sample_page ''2'' ''Positioning and Messaging Architecture''
     = ''Covers market positioning, audience segmentation, messaging pillars, value propositions, and competitive differentiation.''
   \<and> first_match (subsection_match_here ''4.1'' ''Logo Usage'') sample_page
     = Some '' Keep the logo clear.''
   \<and> extractSubsectionContent sample_page ''4.1'' ''Logo Usage'' = ''Keep the logo clear.''"
proof -
  have none: "first_match (section_match_here ''2'' ''Positioning and Messaging Architecture'')
                sample_page = None"
    by code_simp
  have some: "first_match (subsection_match_here ''4.1'' ''Logo Usage'') sample_page
                = Some '' Keep the logo clear.''"
    by code_simp
  have cut: "slice0 (trim '' Keep the logo clear.'') 1500 = ''Keep the logo clear.''"
    by code_simp
  have sec: "(''2'', ''Positioning and Messaging Architecture'') \<in> set SECTION_NAMES"
    by (simp add: SECTION_NAMES_def)
  have sub: "(''4.1'', ''Logo Usage'') \<in> set SUBSECTION_NAMES"
    by (simp add: SUBSECTION_NAMES_def)
  from segment_content_empty
         [OF sec sub, of sample_page] none
  have "extractSectionContent sample_page ''2'' ''Positioning and Messaging Architecture''
          = getDefaultSectionDescription ''2''"
    by blast
  then have one: "extractSectionContent sample_page ''2'' ''Positioning and Messaging Architecture''
     = ''Covers market positioning, audience segmentation, messaging pillars, value propositions, and competitive differentiation.''"
    by (simp add: getDefaultSectionDescription_def descriptions_def)
  from segment_content_empty
         [OF sec sub, of sample_page _ "'' Keep the logo clear.''"] some
  have "extractSubsectionContent sample_page ''4.1'' ''Logo Usage''
          = slice0 (trim '' Keep the logo clear.'') 1500"
    by blast
  with cut have two: "extractSubsectionContent sample_page ''4.1'' ''Logo Usage''
                        = ''Keep the logo clear.''"
    by simp
  from none one some two show ?thesis by simp
qed

text \<open>
  Claim C4 as the specification words it: the content is never empty. Take a text in
  which the line of the heading 1.1 is followed by the line of the heading 1.2, as two
  paragraphs one under the other give it: the pattern of the subsection 1.1 matches and
  captures the line break alone. Likewise for the heading of the section 1 followed by
  the heading of the section 2. The content is the empty string in both.
\<close>

theorem segment_content_counterexample:
  "first_match (subsection_match_here ''1.1'' ''Brand Overview'')
     (''1.1 Brand Overview'' @ newline @ ''1.2 Brand Purpose'') = Some newline
   \<and> extractSubsectionContent (''1.1 Brand Overview'' @ newline @ ''1.2 Brand Purpose'')
       ''1.1'' ''Brand Overview''
     = []
   \<and> extractSectionContent
       (''1. Brand Essence and Foundations'' @ newline
          @ ''2. Positioning and Messaging Architecture'')
       ''1'' ''Brand Essence and Foundations''
     = []"
  by code_simp

section \<open>Properties of the accessors\<close>

lemma parseSubsections_entries:
  "map (\<lambda>sub. (id_sub sub, title_sub sub)) (parseSubsections content num)
   = filter (\<lambda>(subId, subName). prefix (num @ ''.'') subId) SUBSECTION_NAMES"
proof -
  have "map (\<lambda>sub. (id_sub sub, title_sub sub))
          (map (\<lambda>(subId, subName).
                  \<lparr>id_sub = subId, title_sub = subName,
                   content_sub = extractSubsectionContent content subId subName\<rparr>) xs) = xs"
    for xs :: "(string \<times> string) list"
    by (induction xs) auto
  then show ?thesis
    by (simp add: parseSubsections_def startsWith_def)
qed

lemma find_section_valid:
  assumes "s \<in> {''1'', ''2'', ''3'', ''4'', ''5'', ''6''}"
  shows "\<exists>section. find (\<lambda>x. id_sec x = s) (parseSections content) = Some section
           \<and> id_sec section = s
           \<and> (s, title_sec section) \<in> set SECTION_NAMES
           \<and> content_sec section = extractSectionContent content s (title_sec section)
           \<and> subsections section = parseSubsections content s"
  using assms by (auto simp: parseSections_def SECTION_NAMES_def)

lemma find_section_invalid:
  assumes "s \<notin> set (map fst SECTION_NAMES)"
  shows "find (\<lambda>x. id_sec x = s) (parseSections content) = None"
  using assms parseSections_member [of _ content]
  by (force simp: find_None_iff)

lemma find_Some_member: "find P xs = Some x \<Longrightarrow> x \<in> set xs \<and> P x"
  by (induction xs) (auto split: if_splits)

lemma find_subsection_None:
  "(find_subsection secs s = None)
   = (\<forall>sec \<in> set secs. \<forall>sub \<in> set (subsections sec). id_sub sub \<noteq> s)"
  by (induction secs) (auto simp: find_None_iff split: option.splits dest: find_Some_member)

lemma find_subsection_invalid:
  assumes "s \<notin> set (map fst SUBSECTION_NAMES)"
  shows "find_subsection (parseSections content) s = None"
proof -
  have "id_sub sub \<noteq> s"
    if "sec \<in> set (parseSections content)" "sub \<in> set (subsections sec)"
    for sec sub
  proof -
    from parseSections_member [OF that(1)] that(2)
    have "sub \<in> set (parseSubsections content (id_sec sec))" by simp
    from parseSubsections_member [OF this]
    have "id_sub sub \<in> set (map fst SUBSECTION_NAMES)" by force
    with assms show ?thesis by auto
  qed
  then show ?thesis
    by (simp add: find_subsection_None)
qed

text \<open>
  Claim C6. In every state of the cache that the module can reach, when
  \<^verbatim>\<open>getBrandBible\<close> delivers a snapshot (it fails only when the request or the reading of
  the markup fails): for each of the six section identifiers \<open>s\<close>, \<^verbatim>\<open>getSection\<close> returns a section whose
  identifier is \<open>s\<close> and whose subsections are, by identifier and title and in the order
  of the table, the entries of the table of subsections whose identifier starts with
  \<open>s\<close> and a dot.
\<close>

theorem section_of_valid_id:
  assumes "reachable st"
    and "getBrandBible w st = (Inr data, st')"
    and "s \<in> {''1'', ''2'', ''3'', ''4'', ''5'', ''6''}"
  shows "\<exists>section.
           getSection w st s = (Inr (Some section), st')
         \<and> id_sec section = s
         \<and> map (\<lambda>sub. (id_sub sub, title_sub sub)) (subsections section)
             = filter (\<lambda>(subId, subName). prefix (s @ ''.'') subId) SUBSECTION_NAMES"
proof -
  from getBrandBible_assembled [OF reachable_assembled [OF assms(1)] assms(2)]
  have "sections data = parseSections (rawContent data)"
    by (simp add: assembled_def)
  with find_section_valid [OF assms(3), of "rawContent data"]
  obtain sec where "find (\<lambda>x. id_sec x = s) (sections data) = Some sec"
    and "id_sec sec = s"
    and "subsections sec = parseSubsections (rawContent data) s"
    by auto
  then show ?thesis
    using assms(2) by (simp add: getSection_def parseSubsections_entries)
qed

text \<open>The section 2 of the sample snapshot, served from the cache.\<close>

theorem section_of_valid_id_witness:
  "\<exists>section.
     getSection (sample_world 20000 20000) (sample_cache 0 10000) ''2''
       = (Inr (Some section), sample_cache 0 10000)
     \<and> id_sec section = ''2''
     \<and> map (\<lambda>sub. (id_sub sub, title_sub sub)) (subsections section)
         = [(''2.1'', ''Market Context''), (''2.2'', ''Category Definition''),
            (''2.3'', ''Problem Statement''), (''2.4'', ''SODAX Positioning Statement''),
            (''2.5'', ''Audience Segmentation''), (''2.6'', ''Messaging Pillars''),
            (''2.7'', ''Value Propositions by Audience''),
            (''2.8'', ''Competitive Differentiation''), (''2.9'', ''Proof Points''),
            (''2.10'', ''Positioning Guardrails'')]"
proof -
  have hit: "getBrandBible (sample_world 20000 20000) (sample_cache 0 10000)
               = (Inr (sample_snapshot 10000), sample_cache 0 10000)"
    by (simp add: sample_hit)
  have valid: "''2'' \<in> {''1'', ''2'', ''3'', ''4'', ''5'', ''6''}"
    by simp
  have entries: "filter (\<lambda>(subId, subName). prefix (''2'' @ ''.'') subId) SUBSECTION_NAMES
         = [(''2.1'', ''Market Context''), (''2.2'', ''Category Definition''),
            (''2.3'', ''Problem Statement''), (''2.4'', ''SODAX Positioning Statement''),
            (''2.5'', ''Audience Segmentation''), (''2.6'', ''Messaging Pillars''),
            (''2.7'', ''Value Propositions by Audience''),
            (''2.8'', ''Competitive Differentiation''), (''2.9'', ''Proof Points''),
            (''2.10'', ''Positioning Guardrails'')]"
    by (simp add: SUBSECTION_NAMES_def)
  show ?thesis
    using section_of_valid_id [OF sample_cache_reachable hit valid]
    by (simp only: entries)
qed

text \<open>
  Claim C9. In every state of the cache that the module can reach, when
  \<^verbatim>\<open>getBrandBible\<close> delivers a snapshot: for an
  identifier that is not a key of the table of sections, \<^verbatim>\<open>getSection\<close> returns null and
  throws nothing, and the handler of the section tool answers that the section was not
  found and that the valid sections are 1-6; for an identifier that is not a key of the
  table of subsections, \<^verbatim>\<open>getSubsection\<close> returns null and the handler of the subsection
  tool answers that the subsection was not found and lists every key of the table.
\<close>

theorem unknown_id_not_found:
  assumes "reachable st"
    and "getBrandBible w st = (Inr data, st')"
  shows "(section_id \<notin> set (map fst SECTION_NAMES) \<longrightarrow>
            getSection w st section_id = (Inr None, st')
          \<and> sodax_get_section stringify w st section_id response_format
            = (\<lparr>text_out = ''Error: Section '' @ squote @ section_id @ squote
                            @ '' not found. Valid sections are 1-6.'',
                 structuredContent = None\<rparr>, st'))
       \<and> (subsection_id \<notin> set (map fst SUBSECTION_NAMES) \<longrightarrow>
            getSubsection w st subsection_id = (Inr None, st')
          \<and> sodax_get_subsection stringify' w st subsection_id response_format
            = (\<lparr>text_out = ''Error: Subsection '' @ squote @ subsection_id @ squote
                            @ '' not found.'' @ newline @ newline
                            @ ''Available subsections: ''
                            @ join_str '', '' (map fst SUBSECTION_NAMES),
                 structuredContent = None\<rparr>, st'))"
proof -
  from getBrandBible_assembled [OF reachable_assembled [OF assms(1)] assms(2)]
  have a: "sections data = parseSections (rawContent data)"
    by (simp add: assembled_def)
  have one: "getSection w st section_id = (Inr None, st')"
    if "section_id \<notin> set (map fst SECTION_NAMES)"
    using find_section_invalid [OF that, of "rawContent data"] assms(2) a
    by (simp add: getSection_def)
  have two: "getSubsection w st subsection_id = (Inr None, st')"
    if "subsection_id \<notin> set (map fst SUBSECTION_NAMES)"
    using find_subsection_invalid [OF that, of "rawContent data"] assms(2) a
    by (simp add: getSubsection_def)
  show ?thesis
    using one two by (simp add: sodax_get_section_def sodax_get_subsection_def Let_def)
qed

text \<open>The identifiers 9 and 3.99 against the sample snapshot, served from the cache.\<close>

theorem unknown_id_not_found_witness:
  "getSection (sample_world 20000 20000) (sample_cache 0 10000) ''9''
     = (Inr None, sample_cache 0 10000)
   \<and> text_out (fst (sodax_get_section no_json (sample_world 20000 20000)
                       (sample_cache 0 10000) ''9'' MARKDOWN))
     = ''Error: Section '9' not found. Valid sections are 1-6.''
   \<and> getSubsection (sample_world 20000 20000) (sample_cache 0 10000) ''3.99''
     = (Inr None, sample_cache 0 10000)
   \<and> text_out (fst (sodax_get_subsection no_json (sample_world 20000 20000)
                       (sample_cache 0 10000) ''3.99'' MARKDOWN))
     = ''Error: Subsection '3.99' not found.'' @ newline @ newline
       @ ''Available subsections: 1.1, 1.2, 1.3, 1.4, 1.5, 1.6, 2.1, 2.2, 2.3, 2.4, 2.5, 2.6, 2.7, 2.8, 2.9, 2.10, 3.1, 3.2, 3.3, 3.4, 3.5, 3.6, 4.1, 4.2, 4.3, 4.4, 4.5, 4.6, 4.7, 5.1, 5.2, 5.3, 5.4, 5.5, 6.1, 6.2, 6.3, 6.4, 6.5''"
proof -
  have hit: "getBrandBible (sample_world 20000 20000) (sample_cache 0 10000)
               = (Inr (sample_snapshot 10000), sample_cache 0 10000)"
    by (simp add: sample_hit)
  have s: "''9'' \<notin> set (map fst SECTION_NAMES)"
    by (simp add: SECTION_NAMES_def)
  have b: "''3.99'' \<notin> set (map fst SUBSECTION_NAMES)"
    by (simp add: SUBSECTION_NAMES_def)
  have keys: "join_str '', '' (map fst SUBSECTION_NAMES)
                = ''1.1, 1.2, 1.3, 1.4, 1.5, 1.6, 2.1, 2.2, 2.3, 2.4, 2.5, 2.6, 2.7, 2.8, 2.9, 2.10, 3.1, 3.2, 3.3, 3.4, 3.5, 3.6, 4.1, 4.2, 4.3, 4.4, 4.5, 4.6, 4.7, 5.1, 5.2, 5.3, 5.4, 5.5, 6.1, 6.2, 6.3, 6.4, 6.5''"
    by (simp add: SUBSECTION_NAMES_def)
  show ?thesis
    using unknown_id_not_found
            [OF sample_cache_reachable hit, of "''9''" no_json MARKDOWN "''3.99''" no_json]
          s b
    by (simp add: keys squote_def)
qed

text \<open>The identifier 3.99 passes the schema of the subsection tool, so a call of the tool
  reaches the handler with it. The identifier 9 does not pass the schema of the section
  tool: the handler of that tool meets an identifier outside the taxonomy only when it is
  called past the schema.\<close>

lemma schemas_of_unknown_ids:
  "subsection_id_schema ''3.99'' \<and> \<not> section_id_schema ''9''
   \<and> list_all section_id_schema (map fst SECTION_NAMES)
   \<and> list_all subsection_id_schema (map fst SUBSECTION_NAMES)"
  by code_simp

end
